theory Spec2Isabelle
  imports Main "HOL-Library.Word" "HOL-Library.AList"
begin

unbundle bit_operations_syntax

section \<open>The V4L2 device adapter\<close>

text \<open>
  The adapter keeps its state in \<^verbatim>\<open>ArvV4l2DevicePrivate\<close>. Register addresses are
  \<^verbatim>\<open>guint64\<close>, sizes and register values are 32 bits wide. Memory that a caller hands in
  through \<^verbatim>\<open>void *buffer\<close> is a list of bytes (\<^typ>\<open>char\<close> is a byte), the first element
  being the byte at the pointer; \<open>None\<close> is the null pointer.
\<close>

subsection \<open>Addresses and constants\<close>

abbreviation ARV_V4L2_ADDRESS_DEVICE_VENDOR_NAME :: "64 word" where
  "ARV_V4L2_ADDRESS_DEVICE_VENDOR_NAME \<equiv> 0x0048"
abbreviation ARV_V4L2_ADDRESS_DEVICE_MODEL_NAME :: "64 word" where
  "ARV_V4L2_ADDRESS_DEVICE_MODEL_NAME \<equiv> 0x0068"
abbreviation ARV_V4L2_ADDRESS_DEVICE_VERSION :: "64 word" where
  "ARV_V4L2_ADDRESS_DEVICE_VERSION \<equiv> 0x0088"
abbreviation ARV_V4L2_ADDRESS_DEVICE_MANUFACTURER_INFO :: "64 word" where
  "ARV_V4L2_ADDRESS_DEVICE_MANUFACTURER_INFO \<equiv> 0x00a8"
abbreviation ARV_V4L2_ADDRESS_DEVICE_ID :: "64 word" where
  "ARV_V4L2_ADDRESS_DEVICE_ID \<equiv> 0x00d8"
abbreviation ARV_V4L2_ADDRESS_WIDTH :: "64 word" where
  "ARV_V4L2_ADDRESS_WIDTH \<equiv> 0x0100"
abbreviation ARV_V4L2_ADDRESS_HEIGHT :: "64 word" where
  "ARV_V4L2_ADDRESS_HEIGHT \<equiv> 0x0104"
abbreviation ARV_V4L2_ADDRESS_PAYLOAD_SIZE :: "64 word" where
  "ARV_V4L2_ADDRESS_PAYLOAD_SIZE \<equiv> 0x0118"
abbreviation ARV_V4L2_ADDRESS_ACQUISITION_COMMAND :: "64 word" where
  "ARV_V4L2_ADDRESS_ACQUISITION_COMMAND \<equiv> 0x0124"
abbreviation ARV_V4L2_ADDRESS_PIXEL_FORMAT :: "64 word" where
  "ARV_V4L2_ADDRESS_PIXEL_FORMAT \<equiv> 0x0128"

text \<open>The five identity-string addresses, in the order \<^verbatim>\<open>read_memory\<close> tests them.\<close>

definition is_identity_address :: "64 word \<Rightarrow> bool" where
  "is_identity_address a =
     (a = ARV_V4L2_ADDRESS_DEVICE_VENDOR_NAME \<or> a = ARV_V4L2_ADDRESS_DEVICE_MODEL_NAME \<or>
      a = ARV_V4L2_ADDRESS_DEVICE_VERSION \<or> a = ARV_V4L2_ADDRESS_DEVICE_MANUFACTURER_INFO \<or>
      a = ARV_V4L2_ADDRESS_DEVICE_ID)"

text \<open>The four numeric addresses of the \<^verbatim>\<open>switch\<close> in \<^verbatim>\<open>read_memory\<close>.\<close>

definition is_numeric_address :: "64 word \<Rightarrow> bool" where
  "is_numeric_address a =
     (a = ARV_V4L2_ADDRESS_WIDTH \<or> a = ARV_V4L2_ADDRESS_HEIGHT \<or>
      a = ARV_V4L2_ADDRESS_PAYLOAD_SIZE \<or> a = ARV_V4L2_ADDRESS_PIXEL_FORMAT)"

datatype arv_device_error =
    ARV_DEVICE_ERROR_PROTOCOL_ERROR_INVALID_ADDRESS
  | ARV_DEVICE_ERROR_PROTOCOL_ERROR
  | ARV_DEVICE_ERROR_NOT_FOUND
  | ARV_DEVICE_ERROR_GENICAM_NOT_FOUND

subsection \<open>Kernel structures\<close>

text \<open>
  \<^verbatim>\<open>struct v4l2_frmsizeenum\<close> holds a type tag and a union. The code only ever asks whether
  the tag is \<^verbatim>\<open>V4L2_FRMSIZE_TYPE_DISCRETE\<close> and then reads the matching member, so the
  structure is a datatype with one constructor for the discrete member and one for every
  other tag (stepwise, continuous, and the all-zero element a cleared array holds). The
  \<^verbatim>\<open>index\<close> and \<^verbatim>\<open>pixel_format\<close> members are never read back and are left out.
\<close>

datatype v4l2_frmsizeenum =
    Frmsize_discrete (discrete_width: "32 word") (discrete_height: "32 word")
  | Frmsize_stepwise (frmsize_type: "32 word")
      (stepwise_min_width: "32 word") (stepwise_max_width: "32 word")
      (stepwise_min_height: "32 word") (stepwise_max_height: "32 word")

definition frmsize_zero :: v4l2_frmsizeenum where
  "frmsize_zero = Frmsize_stepwise 0 0 0 0 0"

text \<open>
  \<^verbatim>\<open>frame_size->type == V4L2_FRMSIZE_TYPE_DISCRETE ? frame_size->discrete.width :
  frame_size->stepwise.max_width\<close>, and the same for the height.
\<close>

fun frame_width :: "v4l2_frmsizeenum \<Rightarrow> 32 word" where
  "frame_width (Frmsize_discrete w h) = w"
| "frame_width (Frmsize_stepwise t wmin wmax hmin hmax) = wmax"

fun frame_height :: "v4l2_frmsizeenum \<Rightarrow> 32 word" where
  "frame_height (Frmsize_discrete w h) = h"
| "frame_height (Frmsize_stepwise t wmin wmax hmin hmax) = hmax"

record v4l2_pix_format =
  pix_width :: "32 word"
  pix_height :: "32 word"
  pix_pixelformat :: "32 word"
  pix_field :: "32 word"
  pix_sizeimage :: "32 word"

abbreviation (input) V4L2_FIELD_NONE :: "32 word" where
  "V4L2_FIELD_NONE \<equiv> 1"

text \<open>
  The kernel's answers to \<^verbatim>\<open>VIDIOC_S_FMT\<close> and \<^verbatim>\<open>VIDIOC_G_FMT\<close>: \<open>None\<close> when the
  \<^verbatim>\<open>ioctl\<close> returns -1, otherwise the structure as the kernel leaves it.
\<close>

record v4l2_format_ioctls =
  vidioc_s_fmt :: "v4l2_pix_format \<Rightarrow> v4l2_pix_format option"
  vidioc_g_fmt :: "v4l2_pix_format \<Rightarrow> v4l2_pix_format option"

subsection \<open>The private data of the adapter\<close>

record ArvV4l2DevicePrivate =
  device_fd :: int
  device_file :: string
  device_card :: string
  device_version :: string
  device_driver :: string
  sensor_width :: "32 word"
  sensor_height :: "32 word"
  pixel_format_idx :: int
  pixel_formats :: "32 word list"
  frame_sizes :: "v4l2_frmsizeenum list"
  genicam_xml :: string

text \<open>
  \<^verbatim>\<open>pixel_format_idx\<close> is a \<^verbatim>\<open>gint\<close> and the array lengths are \<^verbatim>\<open>guint\<close>: in
  \<^verbatim>\<open>priv->pixel_format_idx < priv->frame_sizes->len\<close> the index is converted to unsigned
  first.
\<close>

definition gint_lt_guint :: "int \<Rightarrow> nat \<Rightarrow> bool" where
  "gint_lt_guint i n = (i mod 2 ^ 32 < int n)"

text \<open>The string that \<^verbatim>\<open>read_memory\<close> copies for an identity-string address.\<close>

definition identity_string :: "ArvV4l2DevicePrivate \<Rightarrow> 64 word \<Rightarrow> string" where
  "identity_string priv address =
     (if address = ARV_V4L2_ADDRESS_DEVICE_VENDOR_NAME then device_driver priv
      else if address = ARV_V4L2_ADDRESS_DEVICE_MODEL_NAME then device_card priv
      else if address = ARV_V4L2_ADDRESS_DEVICE_VERSION then device_version priv
      else if address = ARV_V4L2_ADDRESS_DEVICE_MANUFACTURER_INFO then ''Aravis''
      else device_file priv)"

subsection \<open>Bytes in memory\<close>

text \<open>
  \<^verbatim>\<open>memcpy\<close> between a 32-bit value and a buffer, in the byte order of a little-endian
  host, and a write of bytes into a buffer at an offset. The bytes before and behind the
  written ones stay as they are.
\<close>

definition store32 :: "32 word \<Rightarrow> string" where
  "store32 v = map (\<lambda>k. char_of (unat (drop_bit (8 * k) v))) [0, 1, 2, 3]"

definition load32 :: "string \<Rightarrow> 32 word" where
  "load32 bs = foldr (\<lambda>c acc. of_char c OR push_bit 8 acc) (take 4 bs) 0"

definition write_bytes :: "string \<Rightarrow> nat \<Rightarrow> string \<Rightarrow> string" where
  "write_bytes buffer off bs = take off buffer @ bs @ drop (off + length bs) buffer"

abbreviation NUL :: char where
  "NUL \<equiv> CHR 0x00"

text \<open>
  \<^verbatim>\<open>strncpy (dest, src, n)\<close> writes exactly \<open>n\<close> bytes: the bytes of the C string \<open>src\<close>
  (which ends before its first null byte), cut after \<open>n\<close> of them, and null bytes for the
  rest. The function gives those \<open>n\<close> bytes.
\<close>

definition c_string :: "string \<Rightarrow> string" where
  "c_string s = takeWhile (\<lambda>c. c \<noteq> NUL) s"

definition strncpy :: "string \<Rightarrow> nat \<Rightarrow> string" where
  "strncpy src n = take n (c_string src) @ replicate (n - length (c_string src)) NUL"

text \<open>
  The two statements of every identity branch of \<^verbatim>\<open>read_memory\<close>:
  \<^verbatim>\<open>strncpy (buffer, src, size - 1); ((char *) buffer)[size - 1] = '\0';\<close>
\<close>

definition copy_identity :: "string \<Rightarrow> 32 word \<Rightarrow> string \<Rightarrow> string" where
  "copy_identity src sz buffer =
     write_bytes (write_bytes buffer 0 (strncpy src (unat (sz - 1)))) (unat (sz - 1)) [NUL]"

subsection \<open>\<^verbatim>\<open>arv_v4l2_device_get_image_infos\<close>\<close>

text \<open>
  The result is \<open>None\<close> when the function returns \<^verbatim>\<open>FALSE\<close> (no output is written), and
  otherwise payload size, pixel format, width and height. The caller modelled here,
  \<^verbatim>\<open>read_memory\<close>, has checked that the index is inside both arrays.
\<close>

definition arv_v4l2_device_get_image_infos ::
  "v4l2_format_ioctls \<Rightarrow> ArvV4l2DevicePrivate \<Rightarrow> (32 word \<times> 32 word \<times> 32 word \<times> 32 word) option" where
  "arv_v4l2_device_get_image_infos k priv =
     (let frame_size = frame_sizes priv ! nat (pixel_format_idx priv);
          format = \<lparr>pix_width = frame_width frame_size,
                    pix_height = frame_height frame_size,
                    pix_pixelformat = pixel_formats priv ! nat (pixel_format_idx priv),
                    pix_field = V4L2_FIELD_NONE,
                    pix_sizeimage = 0\<rparr>
      in case vidioc_s_fmt k format of
           None \<Rightarrow> None
         | Some format1 \<Rightarrow>
             (case vidioc_g_fmt k format1 of
                None \<Rightarrow> None
              | Some format2 \<Rightarrow>
                  Some (pix_sizeimage format2,
                        pixel_formats priv ! nat (pixel_format_idx priv),
                        pix_width format2, pix_height format2)))"

subsection \<open>\<^verbatim>\<open>arv_v4l2_device_read_memory\<close>\<close>

record read_result =
  read_ok :: bool
  read_error :: "arv_device_error option"
  read_buffer :: "string option"

text \<open>
  The \<^verbatim>\<open>switch\<close> over the numeric addresses. \<open>None\<close> is \<^verbatim>\<open>found = FALSE\<close>; otherwise the
  result is what \<^verbatim>\<open>value\<close> holds afterwards. \<open>value0\<close> is what the uninitialised local
  \<^verbatim>\<open>value\<close> held before: it survives when \<^verbatim>\<open>arv_v4l2_device_get_image_infos\<close> fails,
  whose result the code ignores.
\<close>

definition read_numeric ::
  "v4l2_format_ioctls \<Rightarrow> 32 word \<Rightarrow> ArvV4l2DevicePrivate \<Rightarrow> 64 word \<Rightarrow> 32 word option" where
  "read_numeric k value0 priv address =
     (if gint_lt_guint (pixel_format_idx priv) (length (frame_sizes priv)) \<and>
         gint_lt_guint (pixel_format_idx priv) (length (pixel_formats priv))
      then
        (let frame_size = frame_sizes priv ! nat (pixel_format_idx priv) in
         if address = ARV_V4L2_ADDRESS_WIDTH then Some (frame_width frame_size)
         else if address = ARV_V4L2_ADDRESS_HEIGHT then Some (frame_height frame_size)
         else if address = ARV_V4L2_ADDRESS_PAYLOAD_SIZE then
           (case arv_v4l2_device_get_image_infos k priv of
              Some (payload_size, pixel_format, width, height) \<Rightarrow> Some payload_size
            | None \<Rightarrow> Some value0)
         else if address = ARV_V4L2_ADDRESS_PIXEL_FORMAT then
           Some (pixel_formats priv ! nat (pixel_format_idx priv))
         else None)
      else None)"

definition arv_v4l2_device_read_memory ::
  "v4l2_format_ioctls \<Rightarrow> 32 word \<Rightarrow> ArvV4l2DevicePrivate \<Rightarrow> 64 word \<Rightarrow> 32 word \<Rightarrow>
     string option \<Rightarrow> read_result" where
  "arv_v4l2_device_read_memory k value0 priv address sz buffer =
     (case buffer of
        None \<Rightarrow> \<lparr>read_ok = False, read_error = None, read_buffer = None\<rparr>
      | Some b \<Rightarrow>
          if sz < 1 then \<lparr>read_ok = False, read_error = None, read_buffer = Some b\<rparr>
          else if address = ARV_V4L2_ADDRESS_DEVICE_VENDOR_NAME then
            \<lparr>read_ok = True, read_error = None,
             read_buffer = Some (copy_identity (device_driver priv) sz b)\<rparr>
          else if address = ARV_V4L2_ADDRESS_DEVICE_MODEL_NAME then
            \<lparr>read_ok = True, read_error = None,
             read_buffer = Some (copy_identity (device_card priv) sz b)\<rparr>
          else if address = ARV_V4L2_ADDRESS_DEVICE_VERSION then
            \<lparr>read_ok = True, read_error = None,
             read_buffer = Some (copy_identity (device_version priv) sz b)\<rparr>
          else if address = ARV_V4L2_ADDRESS_DEVICE_MANUFACTURER_INFO then
            \<lparr>read_ok = True, read_error = None,
             read_buffer = Some (copy_identity ''Aravis'' sz b)\<rparr>
          else if address = ARV_V4L2_ADDRESS_DEVICE_ID then
            \<lparr>read_ok = True, read_error = None,
             read_buffer = Some (copy_identity (device_file priv) sz b)\<rparr>
          else if sz = 4 then
            (case read_numeric k value0 priv address of
               Some v \<Rightarrow>
                 \<lparr>read_ok = True, read_error = None,
                  read_buffer = Some (write_bytes b 0 (store32 v))\<rparr>
             | None \<Rightarrow>
                 \<lparr>read_ok = False,
                  read_error = Some ARV_DEVICE_ERROR_PROTOCOL_ERROR_INVALID_ADDRESS,
                  read_buffer = Some b\<rparr>)
          else \<lparr>read_ok = True, read_error = None, read_buffer = Some b\<rparr>)"

subsection \<open>\<^verbatim>\<open>arv_v4l2_device_write_memory\<close>\<close>

text \<open>
  The loop \<^verbatim>\<open>for (i = 0; i < len; i++) if (pixel_formats[i] == value) pixel_format_idx = i;\<close>
  over the entries from position \<open>i\<close> on. It gives the final \<open>i\<close> and the final index. The
  loop has no \<^verbatim>\<open>break\<close>.
\<close>

fun select_pixel_format :: "32 word list \<Rightarrow> 32 word \<Rightarrow> nat \<Rightarrow> int \<Rightarrow> nat \<times> int" where
  "select_pixel_format [] v i idx = (i, idx)"
| "select_pixel_format (f # fs) v i idx =
     select_pixel_format fs v (i + 1) (if f = v then int i else idx)"

datatype stream_command = VIDIOC_STREAMON | VIDIOC_STREAMOFF

record write_result =
  write_ok :: bool
  write_error :: "arv_device_error option"
  write_priv :: ArvV4l2DevicePrivate
  write_buffer :: string
  write_stream :: "stream_command option"

text \<open>
  \<^verbatim>\<open>write_memory\<close> has no null check, so the buffer is a byte list. \<open>write_stream\<close> is
  the \<^verbatim>\<open>ioctl\<close> that \<^verbatim>\<open>_control_stream\<close> issued, when it was called.
\<close>

definition arv_v4l2_device_write_memory ::
  "ArvV4l2DevicePrivate \<Rightarrow> 64 word \<Rightarrow> 32 word \<Rightarrow> string \<Rightarrow> write_result" where
  "arv_v4l2_device_write_memory priv address sz buffer =
     (if sz = 4 then
        (let v = load32 buffer in
         if address = ARV_V4L2_ADDRESS_ACQUISITION_COMMAND then
           \<lparr>write_ok = True, write_error = None, write_priv = priv,
            write_buffer = write_bytes buffer 0 (store32 v),
            write_stream = Some (if v \<noteq> 0 then VIDIOC_STREAMON else VIDIOC_STREAMOFF)\<rparr>
         else if address = ARV_V4L2_ADDRESS_PIXEL_FORMAT then
           (case select_pixel_format (pixel_formats priv) v 0 (pixel_format_idx priv) of
              (i, idx) \<Rightarrow>
                if i = length (pixel_formats priv) then
                  \<lparr>write_ok = False,
                   write_error = Some ARV_DEVICE_ERROR_PROTOCOL_ERROR_INVALID_ADDRESS,
                   write_priv = priv\<lparr>pixel_format_idx := idx\<rparr>,
                   write_buffer = buffer, write_stream = None\<rparr>
                else
                  \<lparr>write_ok = True, write_error = None,
                   write_priv = priv\<lparr>pixel_format_idx := idx\<rparr>,
                   write_buffer = write_bytes buffer 0 (store32 v), write_stream = None\<rparr>)
         else
           \<lparr>write_ok = False,
            write_error = Some ARV_DEVICE_ERROR_PROTOCOL_ERROR_INVALID_ADDRESS,
            write_priv = priv, write_buffer = buffer, write_stream = None\<rparr>)
      else
        \<lparr>write_ok = True, write_error = None, write_priv = priv,
         write_buffer = buffer, write_stream = None\<rparr>)"

subsection \<open>Construction: \<^verbatim>\<open>arv_v4l2_device_constructed\<close>\<close>

record v4l2_capability =
  cap_driver :: string
  cap_card :: string
  cap_version :: "32 word"
  cap_capabilities :: "32 word"

abbreviation (input) V4L2_CAP_VIDEO_CAPTURE :: "32 word" where
  "V4L2_CAP_VIDEO_CAPTURE \<equiv> 0x00000001"

record v4l2_fmtdesc =
  fmt_pixelformat :: "32 word"
  fmt_description :: string

text \<open>
  What the adapter meets outside of itself while it is constructed: the result of
  \<^verbatim>\<open>v4l2_open\<close>, the answer to \<^verbatim>\<open>VIDIOC_QUERYCAP\<close> (\<open>None\<close> for -1), the bundled schema
  text (\<open>None\<close> when the lookup sets an error), whether \<^verbatim>\<open>arv_gc_new\<close> gives a schema
  object for a text, and the kernel's enumerations. \<^verbatim>\<open>VIDIOC_ENUM_FMT\<close> succeeds for the
  indices \<open>0, 1, ...\<close> below the length of \<open>vidioc_enum_fmt\<close> with the listed answers and
  returns -1 at the first index behind them; \<^verbatim>\<open>VIDIOC_ENUM_FRAMESIZES\<close> does the same
  with the list that belongs to the pixel format asked for.
\<close>

record device_environment =
  v4l2_open :: int
  vidioc_querycap :: "v4l2_capability option"
  g_resources_lookup_data :: "string option"
  arv_gc_new_valid :: "string \<Rightarrow> bool"
  vidioc_enum_fmt :: "v4l2_fmtdesc list"
  vidioc_enum_framesizes :: "32 word \<Rightarrow> v4l2_frmsizeenum list"

datatype ioctl_call =
    VIDIOC_ENUM_FMT nat
  | VIDIOC_ENUM_FRAMESIZES "32 word" nat

text \<open>Decimal output of \<^verbatim>\<open>printf\<close>: \<^verbatim>\<open>%u\<close> and \<^verbatim>\<open>%d\<close>.\<close>

fun show_nat :: "nat \<Rightarrow> string" where
  "show_nat n =
     (if n < 10 then [char_of (48 + n)]
      else show_nat (n div 10) @ [char_of (48 + n mod 10)])"

declare show_nat.simps [simp del]

definition show_int :: "int \<Rightarrow> string" where
  "show_int i = (if i < 0 then ''-'' @ show_nat (nat (- i)) else show_nat (nat i))"

abbreviation DQUOTE :: char where
  "DQUOTE \<equiv> CHR 0x22"

abbreviation NEWLINE :: char where
  "NEWLINE \<equiv> CHR 0x0A"

text \<open>
  \<^verbatim>\<open>g_array_insert_val\<close> and \<^verbatim>\<open>g_array_set_size\<close> of GLib, for an array created with
  \<^verbatim>\<open>clear_ = TRUE\<close>: an insertion behind the end first fills the gap with zeroed elements,
  and growing the array appends zeroed elements. \<open>zero\<close> is the zeroed element.
\<close>

definition g_array_insert_val :: "'a \<Rightarrow> 'a list \<Rightarrow> nat \<Rightarrow> 'a \<Rightarrow> 'a list" where
  "g_array_insert_val zero array i v =
     (if i \<le> length array then take i array @ [v] @ drop i array
      else array @ replicate (i - length array) zero @ [v])"

definition g_array_set_size :: "'a \<Rightarrow> 'a list \<Rightarrow> nat \<Rightarrow> 'a list" where
  "g_array_set_size zero array n = take n array @ replicate (n - length array) zero"

text \<open>
  The loop over \<^verbatim>\<open>pixel_format_map\<close>, a table of pairs (kernel code, generic code):
  \<^verbatim>\<open>if (format.pixelformat == pixel_format_map[k].v4l2) genicam_pixel_format =
  pixel_format_map[k].genicam;\<close> for every \<open>k\<close>. The table is an argument of the model. The
  last argument is the value of \<^verbatim>\<open>genicam_pixel_format\<close> so far.
\<close>

fun map_pixel_format :: "(32 word \<times> 32 word) list \<Rightarrow> 32 word \<Rightarrow> 32 word \<Rightarrow> 32 word" where
  "map_pixel_format [] pixelformat genicam_pixel_format = genicam_pixel_format"
| "map_pixel_format ((v4l2, genicam) # table) pixelformat genicam_pixel_format =
     map_pixel_format table pixelformat
       (if pixelformat = v4l2 then genicam else genicam_pixel_format)"

text \<open>
  The six constants of the table are declared in headers that are not among the sources,
  which is why the table is an argument. For concrete inputs the table below takes the
  four-character codes of the kernel for \<^verbatim>\<open>V4L2_PIX_FMT_RGB24\<close>, \<^verbatim>\<open>V4L2_PIX_FMT_BGR24\<close> and
  \<^verbatim>\<open>V4L2_PIX_FMT_YUYV\<close> and the GenICam pixel-format codes for
  \<^verbatim>\<open>ARV_PIXEL_FORMAT_RGB_8_PACKED\<close>, \<^verbatim>\<open>ARV_PIXEL_FORMAT_BGR_8_PACKED\<close> and
  \<^verbatim>\<open>ARV_PIXEL_FORMAT_YUV_422_PACKED\<close>. The general theorems hold for every table.
\<close>

abbreviation V4L2_PIX_FMT_RGB24 :: "32 word" where
  "V4L2_PIX_FMT_RGB24 \<equiv> 0x33424752"
abbreviation V4L2_PIX_FMT_BGR24 :: "32 word" where
  "V4L2_PIX_FMT_BGR24 \<equiv> 0x33524742"
abbreviation V4L2_PIX_FMT_YUYV :: "32 word" where
  "V4L2_PIX_FMT_YUYV \<equiv> 0x56595559"
abbreviation ARV_PIXEL_FORMAT_RGB_8_PACKED :: "32 word" where
  "ARV_PIXEL_FORMAT_RGB_8_PACKED \<equiv> 0x02180014"
abbreviation ARV_PIXEL_FORMAT_BGR_8_PACKED :: "32 word" where
  "ARV_PIXEL_FORMAT_BGR_8_PACKED \<equiv> 0x02180015"
abbreviation ARV_PIXEL_FORMAT_YUV_422_PACKED :: "32 word" where
  "ARV_PIXEL_FORMAT_YUV_422_PACKED \<equiv> 0x0210001F"

definition pixel_format_map :: "(32 word \<times> 32 word) list" where
  "pixel_format_map =
     [(V4L2_PIX_FMT_RGB24, ARV_PIXEL_FORMAT_RGB_8_PACKED),
      (V4L2_PIX_FMT_BGR24, ARV_PIXEL_FORMAT_BGR_8_PACKED),
      (V4L2_PIX_FMT_YUYV, ARV_PIXEL_FORMAT_YUV_422_PACKED)]"

text \<open>The pieces of text that go into \<^verbatim>\<open>format_feature\<close>.\<close>

definition format_feature_head :: string where
  "format_feature_head =
     ''<Enumeration Name='' @ [DQUOTE] @ ''PixelFormat'' @ [DQUOTE] @ ''>'' @ [NEWLINE] @
     ''  <DisplayName>Pixel format</DisplayName>'' @ [NEWLINE]"

definition enum_entry :: "string \<Rightarrow> 32 word \<Rightarrow> string" where
  "enum_entry description genicam_pixel_format =
     ''  <EnumEntry Name='' @ [DQUOTE] @ description @ [DQUOTE] @ ''>'' @ [NEWLINE] @
     ''    <Value>'' @ show_int (sint genicam_pixel_format) @ ''</Value>'' @ [NEWLINE] @
     ''  </EnumEntry>'' @ [NEWLINE]"

definition format_feature_tail :: string where
  "format_feature_tail =
     ''  <pValue>PixelFormatRegister</pValue>'' @ [NEWLINE] @ ''</Enumeration>''"

definition sensor_feature :: "string \<Rightarrow> string \<Rightarrow> 32 word \<Rightarrow> string" where
  "sensor_feature name description v =
     ''<Integer Name='' @ [DQUOTE] @ name @ [DQUOTE] @ ''>'' @ [NEWLINE] @
     ''  <Description>'' @ description @ ''</Description>'' @ [NEWLINE] @
     ''  <Value>'' @ show_nat (unat v) @ ''</Value>'' @ [NEWLINE] @
     ''  <AccessMode>RO</AccessMode>'' @ [NEWLINE] @ ''</Integer>''"

text \<open>
  The state of the two enumeration loops: the private data, the text collected in
  \<^verbatim>\<open>format_feature\<close>, and the enumeration requests sent to the kernel so far, each with
  the index it asked for (the last one of a loop is the one that returned -1).
\<close>

record enumeration =
  en_priv :: ArvV4l2DevicePrivate
  format_feature :: string
  ioctls :: "ioctl_call list"

text \<open>
  The body of the inner loop behind the \<^verbatim>\<open>ioctl\<close>, for the answer \<open>frame_size\<close> to the
  request with index \<open>j\<close>; \<open>i\<close> is the index of the format. \<^verbatim>\<open>MAX\<close> compares unsigned
  values.
\<close>

definition record_frame_size ::
  "v4l2_frmsizeenum \<Rightarrow> nat \<Rightarrow> nat \<Rightarrow> ArvV4l2DevicePrivate \<Rightarrow> ArvV4l2DevicePrivate" where
  "record_frame_size frame_size i j priv =
     (let priv1 =
            (case frame_size of
               Frmsize_discrete w h \<Rightarrow>
                 priv\<lparr>sensor_width := max (sensor_width priv) w,
                      sensor_height := max (sensor_height priv) h\<rparr>
             | Frmsize_stepwise t wmin wmax hmin hmax \<Rightarrow>
                 priv\<lparr>sensor_width := max (sensor_width priv) wmax,
                      sensor_height := max (sensor_height priv) hmax\<rparr>)
      in if j = 0
         then priv1\<lparr>frame_sizes :=
                g_array_insert_val frmsize_zero (frame_sizes priv1) i frame_size\<rparr>
         else priv1)"

text \<open>
  The inner loop \<^verbatim>\<open>for (j = 0; TRUE; j++)\<close> over the kernel's answers for one pixel
  format, from index \<open>j\<close> on.
\<close>

fun enum_frame_sizes ::
  "v4l2_frmsizeenum list \<Rightarrow> 32 word \<Rightarrow> nat \<Rightarrow> nat \<Rightarrow> enumeration \<Rightarrow> enumeration" where
  "enum_frame_sizes [] pixelformat i j e =
     e\<lparr>ioctls := ioctls e @ [VIDIOC_ENUM_FRAMESIZES pixelformat j]\<rparr>"
| "enum_frame_sizes (frame_size # answers) pixelformat i j e =
     enum_frame_sizes answers pixelformat i (j + 1)
       (e\<lparr>en_priv := record_frame_size frame_size i j (en_priv e),
          ioctls := ioctls e @ [VIDIOC_ENUM_FRAMESIZES pixelformat j]\<rparr>)"

text \<open>
  The body of the outer loop behind the \<^verbatim>\<open>ioctl\<close>, for the answer \<open>format\<close> to the
  request with index \<open>i\<close>. The first branch is the \<^verbatim>\<open>continue\<close>. \<^verbatim>\<open>%s\<close> prints
  \<^verbatim>\<open>format.description\<close> up to its first null byte.
\<close>

definition enum_format_body ::
  "(32 word \<times> 32 word) list \<Rightarrow> (32 word \<Rightarrow> v4l2_frmsizeenum list) \<Rightarrow> v4l2_fmtdesc \<Rightarrow>
     nat \<Rightarrow> enumeration \<Rightarrow> enumeration" where
  "enum_format_body table sizes format i e =
     (let genicam_pixel_format = map_pixel_format table (fmt_pixelformat format) 0;
          e1 = e\<lparr>en_priv := (en_priv e)\<lparr>pixel_formats :=
                   g_array_insert_val 0 (pixel_formats (en_priv e)) i genicam_pixel_format\<rparr>\<rparr>
      in if genicam_pixel_format = 0 then e1
         else
           (let e2 = e1\<lparr>format_feature :=
                        format_feature e1 @
                        enum_entry (c_string (fmt_description format)) genicam_pixel_format,
                      en_priv := (en_priv e1)\<lparr>pixel_format_idx := int i\<rparr>\<rparr>
            in enum_frame_sizes (sizes (fmt_pixelformat format))
                 (fmt_pixelformat format) i 0 e2))"

text \<open>
  The outer loop \<^verbatim>\<open>for (i = 0; TRUE; i++)\<close> over the kernel's answers from index \<open>i\<close> on.
  It gives the final \<open>i\<close> with the final state.
\<close>

fun enum_formats ::
  "(32 word \<times> 32 word) list \<Rightarrow> (32 word \<Rightarrow> v4l2_frmsizeenum list) \<Rightarrow> v4l2_fmtdesc list \<Rightarrow>
     nat \<Rightarrow> enumeration \<Rightarrow> nat \<times> enumeration" where
  "enum_formats table sizes [] i e = (i, e\<lparr>ioctls := ioctls e @ [VIDIOC_ENUM_FMT i]\<rparr>)"
| "enum_formats table sizes (format # answers) i e =
     enum_formats table sizes answers (i + 1)
       (enum_format_body table sizes format i
          (e\<lparr>ioctls := ioctls e @ [VIDIOC_ENUM_FMT i]\<rparr>))"

record constructed_result =
  init_error :: "arv_device_error option"
  con_priv :: ArvV4l2DevicePrivate
  default_node_data :: "(string \<times> string) list"
  con_ioctls :: "ioctl_call list"

text \<open>
  \<^verbatim>\<open>"%d.%d.%d"\<close> of the three low bytes of the kernel's version number.
\<close>

definition version_string :: "32 word \<Rightarrow> string" where
  "version_string v =
     show_nat (unat (drop_bit 16 v AND 0xff)) @ ''.'' @
     show_nat (unat (drop_bit 8 v AND 0xff)) @ ''.'' @
     show_nat (unat (drop_bit 0 v AND 0xff))"

text \<open>
  \<open>init_error\<close> is the error handed to \<^verbatim>\<open>arv_device_take_init_error\<close>; construction
  has succeeded when there is none. \<open>default_node_data\<close> lists the calls of
  \<^verbatim>\<open>arv_gc_set_default_node_data\<close> in their order, each with the node name and the text.

  The function is modelled in two parts. The second part, \<open>enumerate_and_patch\<close>, is the
  code from \<^verbatim>\<open>priv->sensor_width = 0\<close> to the end: it has no error exit.
\<close>

definition enumerate_and_patch ::
  "(32 word \<times> 32 word) list \<Rightarrow> device_environment \<Rightarrow> ArvV4l2DevicePrivate \<Rightarrow>
     constructed_result" where
  "enumerate_and_patch table env priv3 =
     (let priv4 = priv3\<lparr>sensor_width := 0, sensor_height := 0,
                        pixel_formats := [], frame_sizes := []\<rparr>
      in case enum_formats table (vidioc_enum_framesizes env) (vidioc_enum_fmt env) 0
                \<lparr>en_priv = priv4, format_feature = format_feature_head, ioctls = []\<rparr> of
           (i, e) \<Rightarrow>
             (let priv5 = (en_priv e)
                    \<lparr>pixel_formats := g_array_set_size 0 (pixel_formats (en_priv e)) i,
                     frame_sizes :=
                       g_array_set_size frmsize_zero (frame_sizes (en_priv e)) i\<rparr>
              in \<lparr>init_error = None, con_priv = priv5,
                  default_node_data =
                    [(''SensorHeight'',
                      sensor_feature ''SensorHeight'' ''Full height of image sensor.''
                        (sensor_height priv5)),
                     (''SensorWidth'',
                      sensor_feature ''SensorWidth'' ''Full width of image sensor.''
                        (sensor_width priv5)),
                     (''PixelFormat'', format_feature e @ format_feature_tail)],
                  con_ioctls = ioctls e\<rparr>))"

definition arv_v4l2_device_constructed ::
  "(32 word \<times> 32 word) list \<Rightarrow> device_environment \<Rightarrow> ArvV4l2DevicePrivate \<Rightarrow>
     constructed_result" where
  "arv_v4l2_device_constructed table env priv0 =
     (let priv1 = priv0\<lparr>device_fd := v4l2_open env\<rparr> in
      if device_fd priv1 = - 1 then
        \<lparr>init_error = Some ARV_DEVICE_ERROR_NOT_FOUND, con_priv = priv1,
         default_node_data = [], con_ioctls = []\<rparr>
      else
        (case vidioc_querycap env of
           None \<Rightarrow>
             \<lparr>init_error = Some ARV_DEVICE_ERROR_NOT_FOUND, con_priv = priv1,
              default_node_data = [], con_ioctls = []\<rparr>
         | Some cap \<Rightarrow>
             if cap_capabilities cap AND V4L2_CAP_VIDEO_CAPTURE = 0 then
               \<lparr>init_error = Some ARV_DEVICE_ERROR_NOT_FOUND, con_priv = priv1,
                default_node_data = [], con_ioctls = []\<rparr>
             else
               (let priv2 = priv1\<lparr>device_card := c_string (cap_card cap),
                                  device_driver := c_string (cap_driver cap),
                                  device_version := version_string (cap_version cap)\<rparr>
                in case g_resources_lookup_data env of
                     None \<Rightarrow>
                       \<lparr>init_error = Some ARV_DEVICE_ERROR_GENICAM_NOT_FOUND, con_priv = priv2,
                        default_node_data = [], con_ioctls = []\<rparr>
                   | Some xml \<Rightarrow>
                       (let priv3 = priv2\<lparr>genicam_xml := xml\<rparr> in
                        if \<not> arv_gc_new_valid env xml then
                          \<lparr>init_error = Some ARV_DEVICE_ERROR_GENICAM_NOT_FOUND,
                           con_priv = priv3, default_node_data = [], con_ioctls = []\<rparr>
                        else enumerate_and_patch table env priv3))))"

text \<open>
  The generic code that the table gives to a format of the kernel (0 when the table does
  not hold its code), whether a format is supported, and the conditions under which
  construction gets as far as the enumeration.
\<close>

definition genicam_code :: "(32 word \<times> 32 word) list \<Rightarrow> v4l2_fmtdesc \<Rightarrow> 32 word" where
  "genicam_code table format = map_pixel_format table (fmt_pixelformat format) 0"

definition supported_format :: "(32 word \<times> 32 word) list \<Rightarrow> v4l2_fmtdesc \<Rightarrow> bool" where
  "supported_format table format = (genicam_code table format \<noteq> 0)"

definition format_entry :: "(32 word \<times> 32 word) list \<Rightarrow> v4l2_fmtdesc \<Rightarrow> string" where
  "format_entry table format =
     enum_entry (c_string (fmt_description format)) (genicam_code table format)"

definition reaches_enumeration :: "device_environment \<Rightarrow> bool" where
  "reaches_enumeration env =
     (v4l2_open env \<noteq> - 1 \<and>
      (case vidioc_querycap env of
         None \<Rightarrow> False
       | Some cap \<Rightarrow>
           cap_capabilities cap AND V4L2_CAP_VIDEO_CAPTURE \<noteq> 0 \<and>
           (case g_resources_lookup_data env of
              None \<Rightarrow> False
            | Some xml \<Rightarrow> arv_gc_new_valid env xml)))"

text \<open>
  \<^verbatim>\<open>arv_v4l2_device_init\<close> on the zeroed private data, after the \<^verbatim>\<open>device-file\<close>
  property has been set.
\<close>

definition arv_v4l2_device_init :: "string \<Rightarrow> ArvV4l2DevicePrivate" where
  "arv_v4l2_device_init file =
     \<lparr>device_fd = - 1, device_file = file, device_card = [], device_version = [],
      device_driver = [], sensor_width = 0, sensor_height = 0, pixel_format_idx = 0,
      pixel_formats = [], frame_sizes = [], genicam_xml = []\<rparr>"

section \<open>The capture thread of the stream\<close>

text \<open>
  The members of \<^verbatim>\<open>struct v4l2_buffer\<close> that the thread reads. \<^verbatim>\<open>tv_sec\<close> and
  \<^verbatim>\<open>tv_usec\<close> are 64-bit \<^verbatim>\<open>long\<close> values.
\<close>

record v4l2_buffer =
  buf_index :: "32 word"
  buf_tv_sec :: "64 word"
  buf_tv_usec :: "64 word"
  buf_length :: "32 word"

definition v4l2_buffer_zero :: v4l2_buffer where
  "v4l2_buffer_zero = \<lparr>buf_index = 0, buf_tv_sec = 0, buf_tv_usec = 0, buf_length = 0\<rparr>"

datatype ArvBufferPayloadType =
    ARV_BUFFER_PAYLOAD_TYPE_UNKNOWN
  | ARV_BUFFER_PAYLOAD_TYPE_IMAGE

datatype ArvBufferStatus =
    ARV_BUFFER_STATUS_UNKNOWN
  | ARV_BUFFER_STATUS_SUCCESS
  | ARV_BUFFER_STATUS_CLEARED

datatype byte_order = G_LITTLE_ENDIAN | G_BIG_ENDIAN

datatype ArvBufferPartDataType =
    ARV_BUFFER_PART_DATA_TYPE_UNKNOWN
  | ARV_BUFFER_PART_DATA_TYPE_2D_IMAGE

record ArvBufferPartInfos =
  part_data_offset :: nat
  part_component_id :: "32 word"
  part_data_type :: ArvBufferPartDataType
  part_pixel_format :: "32 word"
  part_width :: "32 word"
  part_height :: "32 word"
  part_x_offset :: "32 word"
  part_y_offset :: "32 word"
  part_x_padding :: "32 word"
  part_y_padding :: "32 word"

text \<open>
  Modelled from the spec: the declarations of \<^verbatim>\<open>ArvBufferPrivate\<close> and of its enumerations
  are not among the sources. The specification lists what a delivered buffer carries:
  status, payload type, declared byte order, two timestamps in nanoseconds, frame id,
  received byte count and one image part (pixel format, width, height, offsets and padding).
  The member names are the ones the thread assigns to; the timestamps and the frame id
  are 64 bits wide.

  An application buffer is the slot index attached to the object under the key
  \<^verbatim>\<open>"v4l2-index"\<close> together with those members.
\<close>

record ArvBuffer =
  v4l2_index :: int
  payload_type :: ArvBufferPayloadType
  chunk_endianness :: byte_order
  status :: ArvBufferStatus
  timestamp_ns :: "64 word"
  system_timestamp_ns :: "64 word"
  buffer_frame_id :: "64 word"
  received_size :: nat
  parts :: "ArvBufferPartInfos list"

datatype callback_event =
    ARV_STREAM_CALLBACK_TYPE_INIT
  | ARV_STREAM_CALLBACK_TYPE_EXIT
  | ARV_STREAM_CALLBACK_TYPE_BUFFER_DONE nat

text \<open>
  The state the thread works on. Buffers are known by their address (a number);
  \<open>objects\<close> gives the object at an address. \<open>buffers\<close> is the hash table of the thread,
  from slot index to buffer address, as an association list. \<open>output_queue\<close> lists the
  calls of \<^verbatim>\<open>arv_stream_push_output_buffer\<close>, \<open>callbacks\<close> the calls of the callback.
  The remaining members are those of \<^verbatim>\<open>ArvV4l2StreamThreadData\<close>; \<open>callback\<close> tells
  whether the callback pointer is set.
\<close>

record ArvV4l2StreamThreadData =
  objects :: "nat \<Rightarrow> ArvBuffer"
  buffers :: "(32 word \<times> nat) list"
  output_queue :: "nat list"
  callbacks :: "callback_event list"
  callback :: bool
  pixel_format :: "32 word"
  image_width :: "32 word"
  image_height :: "32 word"
  frame_id :: "32 word"
  n_completed_buffers :: "32 word"
  n_transferred_bytes :: "32 word"

text \<open>
  What one pass of the \<^verbatim>\<open>while\<close> loop meets: the buffers that
  \<^verbatim>\<open>arv_stream_pop_input_buffer\<close> hands out before it returns \<^verbatim>\<open>NULL\<close>, each with the
  kernel's answer to its \<^verbatim>\<open>VIDIOC_QBUF\<close>; the kernel's answer to \<^verbatim>\<open>VIDIOC_DQBUF\<close>; and
  the value of \<^verbatim>\<open>g_get_real_time\<close> (microseconds). An answer is \<open>None\<close> when the \<^verbatim>\<open>ioctl\<close>
  returns -1, which leaves the structure as it was passed in, and otherwise the structure
  as the kernel leaves it.
\<close>

record iteration =
  popped :: "(nat \<times> v4l2_buffer option) list"
  dqbuf :: "v4l2_buffer option"
  real_time :: "64 word"

definition invoke_callback :: "callback_event \<Rightarrow> ArvV4l2StreamThreadData \<Rightarrow> ArvV4l2StreamThreadData" where
  "invoke_callback ev s = (if callback s then s\<lparr>callbacks := callbacks s @ [ev]\<rparr> else s)"

text \<open>
  The \<^verbatim>\<open>do ... while (arv_buffer != NULL)\<close> loop. It threads the local \<^verbatim>\<open>bufd\<close> through.
  \<^verbatim>\<open>g_hash_table_replace\<close> is \<^const>\<open>AList.update\<close>.
\<close>

fun submit_phase ::
  "(nat \<times> v4l2_buffer option) list \<Rightarrow> v4l2_buffer \<Rightarrow> ArvV4l2StreamThreadData \<Rightarrow>
     v4l2_buffer \<times> ArvV4l2StreamThreadData" where
  "submit_phase [] bufd s = (bufd, s)"
| "submit_phase ((arv_buffer, answer) # rest) bufd s =
     (let bufd1 = bufd\<lparr>buf_index := word_of_int (v4l2_index (objects s arv_buffer))\<rparr> in
      case answer of
        None \<Rightarrow>
          submit_phase rest bufd1 (s\<lparr>output_queue := output_queue s @ [arv_buffer]\<rparr>)
      | Some bufd2 \<Rightarrow>
          submit_phase rest bufd2
            (s\<lparr>buffers := AList.update (buf_index bufd2) arv_buffer (buffers s)\<rparr>))"

text \<open>
  The metadata written into a buffer that was found for the slot index in \<^verbatim>\<open>bufd\<close>.
  The arithmetic of the two timestamps is that of 64-bit values.
\<close>

definition stamp_buffer ::
  "v4l2_buffer \<Rightarrow> 64 word \<Rightarrow> ArvV4l2StreamThreadData \<Rightarrow> ArvBuffer \<Rightarrow> ArvBuffer" where
  "stamp_buffer bufd now s b =
     b\<lparr>payload_type := ARV_BUFFER_PAYLOAD_TYPE_IMAGE,
       chunk_endianness := G_BIG_ENDIAN,
       status := ARV_BUFFER_STATUS_SUCCESS,
       timestamp_ns := 1000000000000 * buf_tv_sec bufd + 1000 * buf_tv_usec bufd,
       system_timestamp_ns := now * 1000,
       buffer_frame_id := ucast (frame_id s),
       received_size := unat (buf_length bufd),
       parts :=
         [\<lparr>part_data_offset = 0, part_component_id = 0,
           part_data_type = ARV_BUFFER_PART_DATA_TYPE_2D_IMAGE,
           part_pixel_format = pixel_format s,
           part_width = image_width s, part_height = image_height s,
           part_x_offset = 0, part_y_offset = 0,
           part_x_padding = 0, part_y_padding = 0\<rparr>]\<rparr>"

text \<open>
  From \<^verbatim>\<open>bufd.index = 0\<close> to the end of the loop body. The hash table is only looked
  up here.
\<close>

definition dequeue_phase ::
  "v4l2_buffer option \<Rightarrow> 64 word \<Rightarrow> v4l2_buffer \<Rightarrow> ArvV4l2StreamThreadData \<Rightarrow>
     ArvV4l2StreamThreadData" where
  "dequeue_phase answer now bufd s =
     (let bufd1 = bufd\<lparr>buf_index := 0\<rparr>;
          bufd2 = (case answer of None \<Rightarrow> bufd1 | Some b \<Rightarrow> b)
      in case map_of (buffers s) (buf_index bufd2) of
           None \<Rightarrow> s
         | Some arv_buffer \<Rightarrow>
             invoke_callback (ARV_STREAM_CALLBACK_TYPE_BUFFER_DONE arv_buffer)
               (s\<lparr>objects := (objects s)
                      (arv_buffer := stamp_buffer bufd2 now s (objects s arv_buffer)),
                  frame_id := frame_id s + 1,
                  n_completed_buffers := n_completed_buffers s + 1,
                  n_transferred_bytes := n_transferred_bytes s + buf_length bufd2,
                  output_queue := output_queue s @ [arv_buffer]\<rparr>))"

definition loop_body :: "iteration \<Rightarrow> ArvV4l2StreamThreadData \<Rightarrow> ArvV4l2StreamThreadData" where
  "loop_body it s =
     (case submit_phase (popped it) v4l2_buffer_zero s of
        (bufd, s1) \<Rightarrow> dequeue_phase (dqbuf it) (real_time it) bufd s1)"

text \<open>
  The passes of the loop until the cancel flag is seen set, one element of the list for
  each pass.
\<close>

fun capture_loop :: "iteration list \<Rightarrow> ArvV4l2StreamThreadData \<Rightarrow> ArvV4l2StreamThreadData" where
  "capture_loop [] s = s"
| "capture_loop (it # its) s = capture_loop its (loop_body it s)"

text \<open>
  The loop over the hash table after the capture loop. The hash table gives its entries
  in no promised order; the model takes the order of the association list.
\<close>

definition shutdown_drain :: "ArvV4l2StreamThreadData \<Rightarrow> ArvV4l2StreamThreadData" where
  "shutdown_drain s = s\<lparr>output_queue := output_queue s @ map snd (buffers s), buffers := []\<rparr>"

definition arv_v4l2_stream_thread ::
  "iteration list \<Rightarrow> ArvV4l2StreamThreadData \<Rightarrow> ArvV4l2StreamThreadData" where
  "arv_v4l2_stream_thread its s =
     invoke_callback ARV_STREAM_CALLBACK_TYPE_EXIT
       (shutdown_drain
          (capture_loop its
             (invoke_callback ARV_STREAM_CALLBACK_TYPE_INIT (s\<lparr>buffers := []\<rparr>))))"

section \<open>Concrete inputs\<close>

text \<open>
  An adapter as construction leaves it for a camera with two formats, with the second
  format active, and a kernel that accepts every format and reports two bytes for each
  pixel.
\<close>

definition example_priv :: ArvV4l2DevicePrivate where
  "example_priv =
     (arv_v4l2_device_init ''/dev/video0'')
       \<lparr>device_fd := 3, device_card := ''Webcam'', device_version := ''6.1.0'',
        device_driver := ''uvcvideo'',
        sensor_width := 640, sensor_height := 480, pixel_format_idx := 1,
        pixel_formats := [ARV_PIXEL_FORMAT_RGB_8_PACKED, ARV_PIXEL_FORMAT_YUV_422_PACKED],
        frame_sizes := [Frmsize_discrete 640 480, Frmsize_discrete 320 240]\<rparr>"

definition example_kernel :: v4l2_format_ioctls where
  "example_kernel =
     \<lparr>vidioc_s_fmt = (\<lambda>f. Some (f\<lparr>pix_sizeimage := 2 * pix_width f * pix_height f\<rparr>)),
      vidioc_g_fmt = Some\<rparr>"

text \<open>
  A stream with a callback, 640 by 480 pixels, whose buffer at address \<open>a\<close> carries the
  slot index \<open>a - 1\<close>, as \<^verbatim>\<open>create_buffers\<close> hands them out; and one pass of the capture
  loop that pops the buffer at address 1, queues it, and dequeues slot 0 with the
  timestamp of one second. \<open>example_stale_bufd\<close> is a \<^verbatim>\<open>bufd\<close> that still names slot 2.
\<close>

definition example_buffer :: "int \<Rightarrow> ArvBuffer" where
  "example_buffer slot =
     \<lparr>v4l2_index = slot, payload_type = ARV_BUFFER_PAYLOAD_TYPE_UNKNOWN,
      chunk_endianness = G_LITTLE_ENDIAN, status = ARV_BUFFER_STATUS_CLEARED,
      timestamp_ns = 0, system_timestamp_ns = 0, buffer_frame_id = 0, received_size = 0,
      parts = []\<rparr>"

definition example_thread_data :: ArvV4l2StreamThreadData where
  "example_thread_data =
     \<lparr>objects = (\<lambda>a. example_buffer (int a - 1)), buffers = [], output_queue = [],
      callbacks = [], callback = True, pixel_format = ARV_PIXEL_FORMAT_RGB_8_PACKED,
      image_width = 640, image_height = 480, frame_id = 0, n_completed_buffers = 0,
      n_transferred_bytes = 0\<rparr>"

definition example_frame :: v4l2_buffer where
  "example_frame = \<lparr>buf_index = 0, buf_tv_sec = 1, buf_tv_usec = 0, buf_length = 921600\<rparr>"

definition example_stale_bufd :: v4l2_buffer where
  "example_stale_bufd = example_frame\<lparr>buf_index := 2\<rparr>"

definition example_pass :: iteration where
  "example_pass =
     \<lparr>popped = [(1, Some (v4l2_buffer_zero\<lparr>buf_index := 0\<rparr>))],
      dqbuf = Some example_frame, real_time = 5\<rparr>"

text \<open>
  A capture device that offers RGB24 with one frame size of 640 by 480 and YUYV with one
  frame size of 320 by 240, its descriptions padded with null bytes as they are in the
  array of the kernel structure, and one that offers a format unknown to the table (MJPG)
  between the two.
\<close>

definition example_sizes :: "32 word \<Rightarrow> v4l2_frmsizeenum list" where
  "example_sizes pixelformat =
     (if pixelformat = V4L2_PIX_FMT_RGB24 then [Frmsize_discrete 640 480]
      else if pixelformat = V4L2_PIX_FMT_YUYV then [Frmsize_discrete 320 240]
      else [Frmsize_discrete 1920 1080])"

definition example_env :: device_environment where
  "example_env =
     \<lparr>v4l2_open = 3,
      vidioc_querycap =
        Some \<lparr>cap_driver = ''uvcvideo'', cap_card = ''Webcam'', cap_version = 0x060100,
               cap_capabilities = 0x04200001\<rparr>,
      g_resources_lookup_data = Some ''<RegisterDescription/>'',
      arv_gc_new_valid = (\<lambda>xml. True),
      vidioc_enum_fmt =
        [\<lparr>fmt_pixelformat = V4L2_PIX_FMT_RGB24,
          fmt_description = ''RGB3'' @ [NUL, NUL, NUL, NUL]\<rparr>,
         \<lparr>fmt_pixelformat = V4L2_PIX_FMT_YUYV,
          fmt_description = ''YUYV'' @ [NUL, NUL, NUL, NUL]\<rparr>],
      vidioc_enum_framesizes = example_sizes\<rparr>"

text \<open>
  The text of the \<^verbatim>\<open>PixelFormat\<close> enumeration for RGB24 and YUYV, written out: 35127316 is
  0x02180014 and 34603039 is 0x0210001F.
\<close>

definition example_pixel_format_feature :: string where
  "example_pixel_format_feature =
     ''<Enumeration Name='' @ [DQUOTE] @ ''PixelFormat'' @ [DQUOTE] @ ''>'' @ [NEWLINE] @
     ''  <DisplayName>Pixel format</DisplayName>'' @ [NEWLINE] @
     ''  <EnumEntry Name='' @ [DQUOTE] @ ''RGB3'' @ [DQUOTE] @ ''>'' @ [NEWLINE] @
     ''    <Value>35127316</Value>'' @ [NEWLINE] @
     ''  </EnumEntry>'' @ [NEWLINE] @
     ''  <EnumEntry Name='' @ [DQUOTE] @ ''YUYV'' @ [DQUOTE] @ ''>'' @ [NEWLINE] @
     ''    <Value>34603039</Value>'' @ [NEWLINE] @
     ''  </EnumEntry>'' @ [NEWLINE] @
     ''  <pValue>PixelFormatRegister</pValue>'' @ [NEWLINE] @ ''</Enumeration>''"

text \<open>The number of places in a text at which a pattern starts.\<close>

fun occurrences :: "string \<Rightarrow> string \<Rightarrow> nat" where
  "occurrences pattern [] = 0"
| "occurrences pattern (c # cs) =
     (if take (length pattern) (c # cs) = pattern then 1 else 0) + occurrences pattern cs"

text \<open>
  The state of the enumeration loops behind the first format of a device, in front of the
  loop body for the second format.
\<close>

definition example_enumeration :: enumeration where
  "example_enumeration =
     \<lparr>en_priv = (arv_v4l2_device_init ''/dev/video0'')
                  \<lparr>device_fd := 3, sensor_width := 640, sensor_height := 480,
                   pixel_formats := [ARV_PIXEL_FORMAT_RGB_8_PACKED],
                   frame_sizes := [Frmsize_discrete 640 480]\<rparr>,
      format_feature = format_feature_head @ enum_entry ''RGB3'' ARV_PIXEL_FORMAT_RGB_8_PACKED,
      ioctls = [VIDIOC_ENUM_FMT 0, VIDIOC_ENUM_FRAMESIZES V4L2_PIX_FMT_RGB24 0,
                VIDIOC_ENUM_FRAMESIZES V4L2_PIX_FMT_RGB24 1, VIDIOC_ENUM_FMT 1]\<rparr>"

abbreviation V4L2_PIX_FMT_MJPEG :: "32 word" where
  "V4L2_PIX_FMT_MJPEG \<equiv> 0x47504A4D"

definition example_env_mjpeg :: device_environment where
  "example_env_mjpeg =
     example_env\<lparr>vidioc_enum_fmt :=
       [\<lparr>fmt_pixelformat = V4L2_PIX_FMT_RGB24, fmt_description = ''RGB3''\<rparr>,
        \<lparr>fmt_pixelformat = V4L2_PIX_FMT_MJPEG, fmt_description = ''Motion-JPEG''\<rparr>,
        \<lparr>fmt_pixelformat = V4L2_PIX_FMT_YUYV, fmt_description = ''YUYV''\<rparr>]\<rparr>"

section \<open>Properties of the register interface\<close>

subsection \<open>Auxiliary facts\<close>

lemma select_pixel_format_fst: "fst (select_pixel_format fs v i idx) = i + length fs"
  by (induction fs arbitrary: i idx) auto

lemma select_pixel_format_no_match:
  "v \<notin> set fs \<Longrightarrow> snd (select_pixel_format fs v i idx) = idx"
  by (induction fs arbitrary: i idx) auto

lemma length_strncpy: "length (strncpy src n) = n"
  by (simp add: strncpy_def)

lemma c_string_no_nul: "NUL \<notin> set (c_string s)"
  unfolding c_string_def by (auto dest: set_takeWhileD)

lemma takeWhile_nul_tail:
  assumes "NUL \<notin> set xs"
  shows "takeWhile (\<lambda>c. c \<noteq> NUL) (xs @ replicate m NUL @ [NUL]) = xs"
proof -
  have "takeWhile (\<lambda>c. c \<noteq> NUL) (xs @ replicate m NUL @ [NUL]) =
          xs @ takeWhile (\<lambda>c. c \<noteq> NUL) (replicate m NUL @ [NUL])"
    using assms by (intro takeWhile_append2) auto
  also have "takeWhile (\<lambda>c. c \<noteq> NUL) (replicate m NUL @ [NUL]) = []"
    by (cases m) simp_all
  finally show ?thesis by simp
qed

lemma c_string_strncpy_nul: "c_string (strncpy src n @ [NUL]) = take n (c_string src)"
proof -
  have "NUL \<notin> set (take n (c_string src))"
    using c_string_no_nul [of src] by (auto dest: in_set_takeD)
  then show ?thesis
    using takeWhile_nul_tail [of "take n (c_string src)" "n - length (c_string src)"]
    by (simp add: strncpy_def c_string_def)
qed

lemma copy_identity_eq:
  assumes "1 \<le> sz"
  shows "copy_identity src sz b = strncpy src (unat sz - 1) @ [NUL] @ drop (unat sz) b"
proof -
  have u: "unat (sz - 1) = unat sz - 1"
    using assms by (simp add: unat_sub)
  have p: "0 < unat sz"
    using assms by (simp add: word_le_nat_alt)
  show ?thesis
    using p by (simp add: copy_identity_def write_bytes_def u length_strncpy)
qed

lemma read_numeric_Some_iff:
  "read_numeric k value0 priv address \<noteq> None \<longleftrightarrow>
     is_numeric_address address \<and>
     gint_lt_guint (pixel_format_idx priv) (length (frame_sizes priv)) \<and>
     gint_lt_guint (pixel_format_idx priv) (length (pixel_formats priv))"
  by (simp add: read_numeric_def is_numeric_address_def Let_def split: option.splits prod.splits)

lemma read_memory_numeric:
  assumes "\<not> is_identity_address address"
  shows "arv_v4l2_device_read_memory k value0 priv address 4 (Some b) =
           (case read_numeric k value0 priv address of
              Some v \<Rightarrow> \<lparr>read_ok = True, read_error = None,
                         read_buffer = Some (write_bytes b 0 (store32 v))\<rparr>
            | None \<Rightarrow> \<lparr>read_ok = False,
                        read_error = Some ARV_DEVICE_ERROR_PROTOCOL_ERROR_INVALID_ADDRESS,
                        read_buffer = Some b\<rparr>)"
  using assms by (simp add: arv_v4l2_device_read_memory_def is_identity_address_def)

text \<open>
  Every four-byte write to the pixel-format register fails with the invalid-address
  error, whatever the value: the loop always runs to the end of the table, so the test
  \<^verbatim>\<open>i == priv->pixel_formats->len\<close> behind it always holds. The index is moved all the
  same when the value is in the table.
\<close>

lemma write_pixel_format_never_succeeds:
  "arv_v4l2_device_write_memory priv ARV_V4L2_ADDRESS_PIXEL_FORMAT 4 buffer =
     \<lparr>write_ok = False,
      write_error = Some ARV_DEVICE_ERROR_PROTOCOL_ERROR_INVALID_ADDRESS,
      write_priv = priv\<lparr>pixel_format_idx :=
         snd (select_pixel_format (pixel_formats priv) (load32 buffer) 0
                (pixel_format_idx priv))\<rparr>,
      write_buffer = buffer, write_stream = None\<rparr>"
  using select_pixel_format_fst [of "pixel_formats priv" "load32 buffer" 0 "pixel_format_idx priv"]
  by (cases "select_pixel_format (pixel_formats priv) (load32 buffer) 0 (pixel_format_idx priv)")
     (simp add: arv_v4l2_device_write_memory_def Let_def)

subsection \<open>Writing the pixel-format register\<close>

text \<open>
  C1. A four-byte write to the pixel-format register of a value that the pixel-format
  table holds should move the active index to an entry with that value and succeed.
  Here the table is [RGB8, YUV422], the second entry is active, and the bytes of RGB8 are
  written: the model of the code moves the index to 0 and returns failure with the
  invalid-address error.
\<close>

theorem C1_write_of_listed_pixel_format_fails:
  "arv_v4l2_device_write_memory example_priv ARV_V4L2_ADDRESS_PIXEL_FORMAT 4
       [CHR 0x14, CHR 0x00, CHR 0x18, CHR 0x02] =
     \<lparr>write_ok = False,
      write_error = Some ARV_DEVICE_ERROR_PROTOCOL_ERROR_INVALID_ADDRESS,
      write_priv = example_priv\<lparr>pixel_format_idx := 0\<rparr>,
      write_buffer = [CHR 0x14, CHR 0x00, CHR 0x18, CHR 0x02], write_stream = None\<rparr> \<and>
   load32 [CHR 0x14, CHR 0x00, CHR 0x18, CHR 0x02] = pixel_formats example_priv ! 0"
  by (simp add: arv_v4l2_device_write_memory_def load32_def example_priv_def
        arv_v4l2_device_init_def)

subsection \<open>Reading numeric registers\<close>

text \<open>
  A read of an address that is not an identity string, with a buffer and a byte length
  that is neither 0 nor 4, returns success, sets no error and leaves the buffer as it
  was: \<^verbatim>\<open>if (size == sizeof (value))\<close> has no \<^verbatim>\<open>else\<close>, so \<^verbatim>\<open>found\<close> keeps its initial
  \<^verbatim>\<open>TRUE\<close>.
\<close>

lemma read_other_length_reports_success:
  assumes "\<not> is_identity_address address" and "1 \<le> sz" and "sz \<noteq> 4"
  shows "arv_v4l2_device_read_memory k value0 priv address sz (Some b) =
           \<lparr>read_ok = True, read_error = None, read_buffer = Some b\<rparr>"
proof -
  have "\<not> sz < 1"
    using assms(2) by (simp only: not_less)
  then show ?thesis
    using assms(1,3) by (simp add: arv_v4l2_device_read_memory_def is_identity_address_def)
qed

text \<open>
  C2. A read of an address that is not an identity string should succeed only with a
  byte length of 4; a numeric address with another byte length, and any other address,
  should fail with the invalid-address error. Here the width register is read with a byte
  length of 2, and the acquisition-command address, which is no readable register, with
  a byte length of 8: the model of the code returns success both times, with no error
  and with the buffer as it was.
\<close>

theorem C2_read_of_other_length_reports_success:
  "arv_v4l2_device_read_memory example_kernel 0 example_priv ARV_V4L2_ADDRESS_WIDTH 2
       (Some ''abcd'') =
     \<lparr>read_ok = True, read_error = None, read_buffer = Some ''abcd''\<rparr> \<and>
   arv_v4l2_device_read_memory example_kernel 0 example_priv
       ARV_V4L2_ADDRESS_ACQUISITION_COMMAND 8 (Some ''abcdefgh'') =
     \<lparr>read_ok = True, read_error = None, read_buffer = Some ''abcdefgh''\<rparr>"
  by (simp add: arv_v4l2_device_read_memory_def)

subsection \<open>Reading identity strings\<close>

text \<open>
  C6. A read of an identity-string address with a byte length \<open>k \<ge> 1\<close> succeeds and
  writes exactly the first \<open>k\<close> bytes of the buffer; the bytes behind them stay as they
  were. The written bytes end with a null byte, and the C string they hold is the
  underlying string cut to at most \<open>k - 1\<close> bytes, whatever its length.
\<close>

theorem C6_identity_read_truncates:
  assumes "is_identity_address address" and "1 \<le> sz"
  shows "arv_v4l2_device_read_memory k value0 priv address sz (Some b) =
           \<lparr>read_ok = True, read_error = None,
            read_buffer = Some (strncpy (identity_string priv address) (unat sz - 1) @ [NUL] @
                                drop (unat sz) b)\<rparr> \<and>
         length (strncpy (identity_string priv address) (unat sz - 1) @ [NUL]) = unat sz \<and>
         c_string (strncpy (identity_string priv address) (unat sz - 1) @ [NUL]) =
           take (unat sz - 1) (c_string (identity_string priv address))"
proof -
  have n: "\<not> sz < 1"
    using assms(2) by (simp only: not_less)
  have p: "0 < unat sz"
    using assms(2) by (simp add: word_le_nat_alt)
  have "arv_v4l2_device_read_memory k value0 priv address sz (Some b) =
          \<lparr>read_ok = True, read_error = None,
           read_buffer = Some (copy_identity (identity_string priv address) sz b)\<rparr>"
    using assms(1) n
    by (auto simp: arv_v4l2_device_read_memory_def is_identity_address_def identity_string_def)
  then show ?thesis
    using p by (simp add: copy_identity_eq [OF assms(2)] length_strncpy c_string_strncpy_nul)
qed

theorem C6_identity_read_truncates_witness:
  "is_identity_address ARV_V4L2_ADDRESS_DEVICE_VENDOR_NAME \<and> (1 :: 32 word) \<le> 4 \<and>
   arv_v4l2_device_read_memory example_kernel 0 example_priv
       ARV_V4L2_ADDRESS_DEVICE_VENDOR_NAME 4 (Some ''abcdefgh'') =
     \<lparr>read_ok = True, read_error = None, read_buffer = Some (''uvc'' @ [NUL] @ ''efgh'')\<rparr> \<and>
   c_string (''uvc'' @ [NUL]) = take 3 (c_string (device_driver example_priv))"
proof -
  have a: "is_identity_address ARV_V4L2_ADDRESS_DEVICE_VENDOR_NAME"
    by (simp add: is_identity_address_def)
  have b: "(1 :: 32 word) \<le> 4"
    by simp
  show ?thesis
    using a b
      C6_identity_read_truncates [OF a b, of example_kernel 0 example_priv "''abcdefgh''"]
    by (simp add: identity_string_def strncpy_def c_string_def example_priv_def
          arv_v4l2_device_init_def)
qed

subsection \<open>The guard of the read operation\<close>

text \<open>
  C10. A read with a byte length below 1 or with a null buffer returns failure at once,
  leaves the buffer alone and sets no error value. Every other read that fails sets
  the invalid-address error.
\<close>

theorem C10_read_guard_sets_no_error:
  "(sz < 1 \<or> buffer = None \<longrightarrow>
      arv_v4l2_device_read_memory k value0 priv address sz buffer =
        \<lparr>read_ok = False, read_error = None, read_buffer = buffer\<rparr>) \<and>
   (\<not> (sz < 1 \<or> buffer = None) \<and>
    \<not> read_ok (arv_v4l2_device_read_memory k value0 priv address sz buffer) \<longrightarrow>
      read_error (arv_v4l2_device_read_memory k value0 priv address sz buffer) =
        Some ARV_DEVICE_ERROR_PROTOCOL_ERROR_INVALID_ADDRESS)"
  by (auto simp: arv_v4l2_device_read_memory_def split: option.splits)

theorem C10_read_guard_sets_no_error_witness:
  "arv_v4l2_device_read_memory example_kernel 0 example_priv ARV_V4L2_ADDRESS_WIDTH 0
       (Some ''abcd'') =
     \<lparr>read_ok = False, read_error = None, read_buffer = Some ''abcd''\<rparr> \<and>
   arv_v4l2_device_read_memory example_kernel 0 example_priv ARV_V4L2_ADDRESS_WIDTH 4 None =
     \<lparr>read_ok = False, read_error = None, read_buffer = None\<rparr> \<and>
   \<not> read_ok (arv_v4l2_device_read_memory example_kernel 0 example_priv
                ARV_V4L2_ADDRESS_ACQUISITION_COMMAND 4 (Some ''abcd'')) \<and>
   read_error (arv_v4l2_device_read_memory example_kernel 0 example_priv
                 ARV_V4L2_ADDRESS_ACQUISITION_COMMAND 4 (Some ''abcd'')) =
     Some ARV_DEVICE_ERROR_PROTOCOL_ERROR_INVALID_ADDRESS"
proof -
  have f: "\<not> read_ok (arv_v4l2_device_read_memory example_kernel 0 example_priv
                        ARV_V4L2_ADDRESS_ACQUISITION_COMMAND 4 (Some ''abcd''))"
    by (simp add: arv_v4l2_device_read_memory_def read_numeric_def)
  show ?thesis
    using f
      C10_read_guard_sets_no_error [of 0 "Some ''abcd''" example_kernel 0 example_priv
        ARV_V4L2_ADDRESS_WIDTH]
      C10_read_guard_sets_no_error [of 4 None example_kernel 0 example_priv
        ARV_V4L2_ADDRESS_WIDTH]
      C10_read_guard_sets_no_error [of 4 "Some ''abcd''" example_kernel 0 example_priv
        ARV_V4L2_ADDRESS_ACQUISITION_COMMAND]
    by simp
qed

section \<open>Properties of construction\<close>

subsection \<open>Auxiliary facts about the enumeration loops\<close>

lemma show_int_example: "show_int (sint (0x02180014::32 word)) = ''35127316''"
  by (simp add: show_int_def show_nat.simps char_of_def bit_Suc_0_iff)

lemma enum_frame_sizes_keeps:
  "pixel_format_idx (en_priv (enum_frame_sizes answers pf i j e)) = pixel_format_idx (en_priv e) \<and>
   pixel_formats (en_priv (enum_frame_sizes answers pf i j e)) = pixel_formats (en_priv e) \<and>
   format_feature (enum_frame_sizes answers pf i j e) = format_feature e"
  by (induction answers arbitrary: j e)
     (auto simp: record_frame_size_def Let_def split: v4l2_frmsizeenum.splits)

lemma enum_frame_sizes_ioctls:
  "set (ioctls (enum_frame_sizes answers pf i j e)) \<subseteq>
     set (ioctls e) \<union> range (VIDIOC_ENUM_FRAMESIZES pf)"
proof (induction answers arbitrary: j e)
  case Nil
  then show ?case by auto
next
  case (Cons a answers)
  show ?case
    using Cons.IH [of "j + 1" "e\<lparr>en_priv := record_frame_size a i j (en_priv e),
          ioctls := ioctls e @ [VIDIOC_ENUM_FRAMESIZES pf j]\<rparr>"]
    by auto
qed

lemma enum_frame_sizes_ioctls_mono:
  "set (ioctls e) \<subseteq> set (ioctls (enum_frame_sizes answers pf i j e))"
proof (induction answers arbitrary: j e)
  case Nil
  then show ?case by auto
next
  case (Cons a answers)
  show ?case
    using Cons.IH [of "e\<lparr>en_priv := record_frame_size a i j (en_priv e),
          ioctls := ioctls e @ [VIDIOC_ENUM_FRAMESIZES pf j]\<rparr>" "j + 1"]
    by auto
qed

lemma g_array_insert_val_end:
  "length array = i \<Longrightarrow> g_array_insert_val z array i v = array @ [v]"
  by (simp add: g_array_insert_val_def)

lemma body_pixel_formats:
  "length (pixel_formats (en_priv e)) = i \<Longrightarrow>
   pixel_formats (en_priv (enum_format_body table sizes f i e)) =
     pixel_formats (en_priv e) @ [genicam_code table f]"
  by (simp add: enum_format_body_def Let_def g_array_insert_val_end enum_frame_sizes_keeps
        genicam_code_def)

lemma body_format_feature:
  "format_feature (enum_format_body table sizes f i e) =
     format_feature e @ (if supported_format table f then format_entry table f else [])"
  by (simp add: enum_format_body_def Let_def enum_frame_sizes_keeps genicam_code_def
        supported_format_def format_entry_def)

lemma body_idx:
  "pixel_format_idx (en_priv (enum_format_body table sizes f i e)) =
     (if supported_format table f then int i else pixel_format_idx (en_priv e))"
  by (simp add: enum_format_body_def Let_def enum_frame_sizes_keeps genicam_code_def
        supported_format_def)

lemma body_ioctls_mono:
  "set (ioctls e) \<subseteq> set (ioctls (enum_format_body table sizes f i e))"
  using enum_frame_sizes_ioctls_mono
  by (simp add: enum_format_body_def Let_def) fastforce

lemma body_ioctls:
  "set (ioctls (enum_format_body table sizes f i e)) \<subseteq>
     set (ioctls e) \<union>
     (if supported_format table f then range (VIDIOC_ENUM_FRAMESIZES (fmt_pixelformat f)) else {})"
  using enum_frame_sizes_ioctls
  by (simp add: enum_format_body_def Let_def genicam_code_def supported_format_def) fastforce

lemma enum_formats_fst: "fst (enum_formats table sizes fmts i e) = i + length fmts"
  by (induction fmts arbitrary: i e) auto

lemma enum_formats_pixel_formats:
  "length (pixel_formats (en_priv e)) = i \<Longrightarrow>
   pixel_formats (en_priv (snd (enum_formats table sizes fmts i e))) =
     pixel_formats (en_priv e) @ map (genicam_code table) fmts"
  by (induction fmts arbitrary: i e) (simp_all add: body_pixel_formats)

lemma enum_formats_format_feature:
  "format_feature (snd (enum_formats table sizes fmts i e)) =
     format_feature e @ concat (map (format_entry table) (filter (supported_format table) fmts))"
  by (induction fmts arbitrary: i e) (simp_all add: body_format_feature)

lemma enum_formats_ioctls_mono:
  "set (ioctls e) \<subseteq> set (ioctls (snd (enum_formats table sizes fmts i e)))"
proof (induction fmts arbitrary: i e)
  case Nil
  then show ?case by auto
next
  case (Cons f fmts)
  have "set (ioctls e) \<subseteq>
          set (ioctls (enum_format_body table sizes f i (e\<lparr>ioctls := ioctls e @ [VIDIOC_ENUM_FMT i]\<rparr>)))"
    using body_ioctls_mono [of "e\<lparr>ioctls := ioctls e @ [VIDIOC_ENUM_FMT i]\<rparr>" table sizes f i]
    by auto
  then show ?case
    using Cons.IH [of "enum_format_body table sizes f i (e\<lparr>ioctls := ioctls e @ [VIDIOC_ENUM_FMT i]\<rparr>)" "i + 1"]
    by auto
qed

lemma enum_formats_asks_every_index:
  "m \<le> length fmts \<Longrightarrow>
   VIDIOC_ENUM_FMT (i + m) \<in> set (ioctls (snd (enum_formats table sizes fmts i e)))"
proof (induction fmts arbitrary: i e m)
  case Nil
  then show ?case by simp
next
  case (Cons f fmts)
  let ?e = "enum_format_body table sizes f i (e\<lparr>ioctls := ioctls e @ [VIDIOC_ENUM_FMT i]\<rparr>)"
  show ?case
  proof (cases m)
    case 0
    have "VIDIOC_ENUM_FMT i \<in> set (ioctls ?e)"
      using body_ioctls_mono [of "e\<lparr>ioctls := ioctls e @ [VIDIOC_ENUM_FMT i]\<rparr>" table sizes f i]
      by auto
    then show ?thesis
      using 0 enum_formats_ioctls_mono [of ?e table sizes fmts "i + 1"] by auto
  next
    case (Suc k)
    then have "k \<le> length fmts" using Cons.prems by simp
    then show ?thesis
      using Suc Cons.IH [of k "i + 1" ?e] by simp
  qed
qed

lemma enum_formats_frame_size_requests:
  "VIDIOC_ENUM_FRAMESIZES pf j \<in> set (ioctls (snd (enum_formats table sizes fmts i e))) \<Longrightarrow>
   VIDIOC_ENUM_FRAMESIZES pf j \<in> set (ioctls e) \<or> map_pixel_format table pf 0 \<noteq> 0"
proof (induction fmts arbitrary: i e)
  case Nil
  then show ?case by simp
next
  case (Cons f fmts)
  let ?a = "e\<lparr>ioctls := ioctls e @ [VIDIOC_ENUM_FMT i]\<rparr>"
  let ?e = "enum_format_body table sizes f i ?a"
  from Cons.prems have "VIDIOC_ENUM_FRAMESIZES pf j \<in> set (ioctls ?e) \<or> map_pixel_format table pf 0 \<noteq> 0"
    using Cons.IH [of "i + 1" ?e] by simp
  then show ?case
    using body_ioctls [of table sizes f i ?a]
    by (auto simp: supported_format_def genicam_code_def split: if_splits)
qed

lemma enum_formats_idx_unsupported:
  "\<forall>f \<in> set fmts. \<not> supported_format table f \<Longrightarrow>
   pixel_format_idx (en_priv (snd (enum_formats table sizes fmts i e))) =
     pixel_format_idx (en_priv e)"
  by (induction fmts arbitrary: i e) (simp_all add: body_idx)

lemma enum_formats_idx_last:
  "supported_format table f \<Longrightarrow> \<forall>g \<in> set post. \<not> supported_format table g \<Longrightarrow>
   pixel_format_idx (en_priv (snd (enum_formats table sizes (pre @ f # post) i e))) =
     int (i + length pre)"
  by (induction pre arbitrary: i e) (simp_all add: enum_formats_idx_unsupported body_idx)

lemma map_pixel_format_absent:
  "pf \<notin> fst ` set table \<Longrightarrow> map_pixel_format table pf g = g"
  by (induction table arbitrary: g) auto

lemma constructed_success:
  assumes "init_error (arv_v4l2_device_constructed table env priv0) = None"
  shows "\<exists>priv3. arv_v4l2_device_constructed table env priv0 = enumerate_and_patch table env priv3 \<and>
           pixel_format_idx priv3 = pixel_format_idx priv0"
  using assms
  by (auto simp: arv_v4l2_device_constructed_def Let_def split: if_splits option.splits)

lemma init_error_enumerate_and_patch: "init_error (enumerate_and_patch table env priv3) = None"
  by (simp add: enumerate_and_patch_def Let_def case_prod_unfold)

lemma constructed_reaches:
  "init_error (arv_v4l2_device_constructed table env priv0) = None \<longleftrightarrow> reaches_enumeration env"
  by (auto simp: arv_v4l2_device_constructed_def reaches_enumeration_def Let_def
        init_error_enumerate_and_patch split: option.splits)

lemma g_array_set_size_same: "g_array_set_size z array (length array) = array"
  by (simp add: g_array_set_size_def)

lemma patch_pixel_formats:
  "pixel_formats (con_priv (enumerate_and_patch table env priv3)) =
     map (genicam_code table) (vidioc_enum_fmt env)"
proof -
  let ?a = "\<lparr>en_priv = priv3\<lparr>sensor_width := 0, sensor_height := 0,
                        pixel_formats := [], frame_sizes := []\<rparr>, format_feature = format_feature_head, ioctls = []\<rparr>"
  let ?r = "enum_formats table (vidioc_enum_framesizes env) (vidioc_enum_fmt env) 0 ?a"
  have p: "pixel_formats (en_priv (snd ?r)) = map (genicam_code table) (vidioc_enum_fmt env)"
    using enum_formats_pixel_formats [of ?a 0 table "vidioc_enum_framesizes env" "vidioc_enum_fmt env"]
    by simp
  have f: "fst ?r = length (vidioc_enum_fmt env)"
    by (simp add: enum_formats_fst)
  have "pixel_formats (con_priv (enumerate_and_patch table env priv3)) =
          g_array_set_size 0 (pixel_formats (en_priv (snd ?r))) (fst ?r)"
    by (simp add: enumerate_and_patch_def Let_def case_prod_unfold)
  then show ?thesis
    using g_array_set_size_same [of 0 "map (genicam_code table) (vidioc_enum_fmt env)"]
    by (simp add: p f)
qed

lemma patch_idx:
  "pixel_format_idx (con_priv (enumerate_and_patch table env priv3)) =
     pixel_format_idx (en_priv (snd (enum_formats table (vidioc_enum_framesizes env)
        (vidioc_enum_fmt env) 0
        \<lparr>en_priv = priv3\<lparr>sensor_width := 0, sensor_height := 0,
                        pixel_formats := [], frame_sizes := []\<rparr>,
         format_feature = format_feature_head, ioctls = []\<rparr>)))"
  by (simp add: enumerate_and_patch_def Let_def case_prod_unfold)

lemma patch_ioctls:
  "con_ioctls (enumerate_and_patch table env priv3) =
     ioctls (snd (enum_formats table (vidioc_enum_framesizes env)
        (vidioc_enum_fmt env) 0
        \<lparr>en_priv = priv3\<lparr>sensor_width := 0, sensor_height := 0,
                        pixel_formats := [], frame_sizes := []\<rparr>,
         format_feature = format_feature_head, ioctls = []\<rparr>))"
  by (simp add: enumerate_and_patch_def Let_def case_prod_unfold)

lemma patch_format_feature:
  "map_of (default_node_data (enumerate_and_patch table env priv3)) ''PixelFormat'' =
     Some (format_feature_head @
           concat (map (format_entry table) (filter (supported_format table) (vidioc_enum_fmt env))) @
           format_feature_tail)"
  by (simp add: enumerate_and_patch_def Let_def case_prod_unfold enum_formats_format_feature)

lemma reaches_example: "reaches_enumeration example_env"
  by (simp add: reaches_enumeration_def example_env_def)

lemma reaches_example_mjpeg: "reaches_enumeration example_env_mjpeg"
  by (simp add: reaches_enumeration_def example_env_mjpeg_def example_env_def)

subsection \<open>The active format after construction\<close>

text \<open>
  C5. After construction has succeeded, the active format index is the index of the
  last format of the enumeration whose generic code is not the sentinel 0: if the format
  at index \<open>n\<close> is supported and no format behind it is, the index is \<open>n\<close>. It need not
  be index 0 or the first supported format: for the device of the witness, which offers
  RGB24, Motion-JPEG and YUYV, it is 2.
\<close>

theorem C5_active_index_is_last_supported:
  assumes "init_error (arv_v4l2_device_constructed table env priv0) = None"
    and "n < length (vidioc_enum_fmt env)"
    and "supported_format table (vidioc_enum_fmt env ! n)"
    and "\<forall>m. n < m \<and> m < length (vidioc_enum_fmt env) \<longrightarrow>
           \<not> supported_format table (vidioc_enum_fmt env ! m)"
  shows "pixel_format_idx (con_priv (arv_v4l2_device_constructed table env priv0)) = int n"
proof -
  let ?fmts = "vidioc_enum_fmt env"
  obtain priv3 where r: "arv_v4l2_device_constructed table env priv0 = enumerate_and_patch table env priv3"
    using constructed_success [OF assms(1)] by blast
  have split: "?fmts = take n ?fmts @ ?fmts ! n # drop (Suc n) ?fmts"
    using assms(2) by (simp add: id_take_nth_drop)
  have post: "\<forall>g \<in> set (drop (Suc n) ?fmts). \<not> supported_format table g"
  proof
    fix g assume "g \<in> set (drop (Suc n) ?fmts)"
    then obtain k where "k < length (drop (Suc n) ?fmts)" and "g = drop (Suc n) ?fmts ! k"
      by (auto simp: in_set_conv_nth)
    then have "g = ?fmts ! (Suc n + k)" and "Suc n + k < length ?fmts"
      by auto
    then show "\<not> supported_format table g"
      using assms(4) by auto
  qed
  have "pixel_format_idx (en_priv (snd (enum_formats table sizes
          (take n ?fmts @ ?fmts ! n # drop (Suc n) ?fmts) 0 e))) = int (0 + length (take n ?fmts))" for sizes e
    using enum_formats_idx_last [OF assms(3) post] by blast
  then have "pixel_format_idx (en_priv (snd (enum_formats table sizes ?fmts 0 e))) = int n" for sizes e
    using split assms(2) by simp
  then show ?thesis
    by (simp add: r patch_idx)
qed

theorem C5_active_index_is_last_supported_witness:
  "init_error (arv_v4l2_device_constructed pixel_format_map example_env_mjpeg
     (arv_v4l2_device_init ''/dev/video0'')) = None \<and>
   supported_format pixel_format_map (vidioc_enum_fmt example_env_mjpeg ! 0) \<and>
   supported_format pixel_format_map (vidioc_enum_fmt example_env_mjpeg ! 2) \<and>
   pixel_format_idx (con_priv (arv_v4l2_device_constructed pixel_format_map example_env_mjpeg
     (arv_v4l2_device_init ''/dev/video0''))) = 2"
proof -
  have a: "init_error (arv_v4l2_device_constructed pixel_format_map example_env_mjpeg
     (arv_v4l2_device_init ''/dev/video0'')) = None"
    using reaches_example_mjpeg by (simp add: constructed_reaches)
  have b: "2 < length (vidioc_enum_fmt example_env_mjpeg)"
    by (simp add: example_env_mjpeg_def)
  have c: "supported_format pixel_format_map (vidioc_enum_fmt example_env_mjpeg ! 2)"
    by (simp add: supported_format_def genicam_code_def pixel_format_map_def
          example_env_mjpeg_def)
  have d: "\<forall>m. 2 < m \<and> m < length (vidioc_enum_fmt example_env_mjpeg) \<longrightarrow>
           \<not> supported_format pixel_format_map (vidioc_enum_fmt example_env_mjpeg ! m)"
    by (auto simp: example_env_mjpeg_def)
  have e: "supported_format pixel_format_map (vidioc_enum_fmt example_env_mjpeg ! 0)"
    by (simp add: supported_format_def genicam_code_def pixel_format_map_def
          example_env_mjpeg_def)
  show ?thesis
    using a c e C5_active_index_is_last_supported [OF a b c d] by simp
qed

subsection \<open>Two supported formats\<close>

text \<open>
  C7. The kernel enumerates exactly two formats, the first with a code that the table
  maps to \<open>A\<close> and one discrete frame size of 640 by 480, the second with a code that the
  table maps to \<open>B\<close> and one discrete frame size of 320 by 240, both codes supported. After
  construction the sensor is 640 wide and 480 high, the pixel-format table is \<open>[A, B]\<close>,
  and the text of the \<^verbatim>\<open>PixelFormat\<close> enumeration is the one written out below: the
  opening lines, one \<^verbatim>\<open>EnumEntry\<close> named by the first description with the decimal of
  \<open>A\<close> as its \<^verbatim>\<open>Value\<close>, one \<^verbatim>\<open>EnumEntry\<close> named by the second description with the
  decimal of \<open>B\<close> as its \<^verbatim>\<open>Value\<close>, and the closing lines. The witness gives the text for
  RGB24 and YUYV letter by letter and counts two places where an \<^verbatim>\<open>EnumEntry\<close> opens.
\<close>

theorem C7_two_format_scenario:
  assumes "init_error (arv_v4l2_device_constructed table env priv0) = None"
    and "vidioc_enum_fmt env =
           [\<lparr>fmt_pixelformat = rgb24, fmt_description = d1\<rparr>,
            \<lparr>fmt_pixelformat = yuyv, fmt_description = d2\<rparr>]"
    and "vidioc_enum_framesizes env rgb24 = [Frmsize_discrete 640 480]"
    and "vidioc_enum_framesizes env yuyv = [Frmsize_discrete 320 240]"
    and "map_pixel_format table rgb24 0 = A" and "map_pixel_format table yuyv 0 = B"
    and "A \<noteq> 0" and "B \<noteq> 0"
  shows "sensor_width (con_priv (arv_v4l2_device_constructed table env priv0)) = 640 \<and>
         sensor_height (con_priv (arv_v4l2_device_constructed table env priv0)) = 480 \<and>
         pixel_formats (con_priv (arv_v4l2_device_constructed table env priv0)) = [A, B] \<and>
         map_of (default_node_data (arv_v4l2_device_constructed table env priv0)) ''PixelFormat'' =
           Some (''<Enumeration Name='' @ [DQUOTE] @ ''PixelFormat'' @ [DQUOTE] @ ''>'' @
                   [NEWLINE] @
                 ''  <DisplayName>Pixel format</DisplayName>'' @ [NEWLINE] @
                 ''  <EnumEntry Name='' @ [DQUOTE] @ c_string d1 @ [DQUOTE] @ ''>'' @ [NEWLINE] @
                 ''    <Value>'' @ show_int (sint A) @ ''</Value>'' @ [NEWLINE] @
                 ''  </EnumEntry>'' @ [NEWLINE] @
                 ''  <EnumEntry Name='' @ [DQUOTE] @ c_string d2 @ [DQUOTE] @ ''>'' @ [NEWLINE] @
                 ''    <Value>'' @ show_int (sint B) @ ''</Value>'' @ [NEWLINE] @
                 ''  </EnumEntry>'' @ [NEWLINE] @
                 ''  <pValue>PixelFormatRegister</pValue>'' @ [NEWLINE] @ ''</Enumeration>'')"
proof -
  obtain priv3 where r: "arv_v4l2_device_constructed table env priv0 = enumerate_and_patch table env priv3"
    using constructed_success [OF assms(1)] by blast
  have m: "max (640 :: 32 word) 320 = 640" "max (480 :: 32 word) 240 = 480"
    by simp_all
  show ?thesis
    using assms(2-8)
    by (simp add: r enumerate_and_patch_def enum_format_body_def record_frame_size_def
          g_array_insert_val_def g_array_set_size_def Let_def m
          format_feature_head_def enum_entry_def format_feature_tail_def)
qed

theorem C7_two_format_scenario_witness:
  "init_error (arv_v4l2_device_constructed pixel_format_map example_env
     (arv_v4l2_device_init ''/dev/video0'')) = None \<and>
   map_pixel_format pixel_format_map V4L2_PIX_FMT_RGB24 0 = ARV_PIXEL_FORMAT_RGB_8_PACKED \<and>
   map_pixel_format pixel_format_map V4L2_PIX_FMT_YUYV 0 = ARV_PIXEL_FORMAT_YUV_422_PACKED \<and>
   sensor_width (con_priv (arv_v4l2_device_constructed pixel_format_map example_env
     (arv_v4l2_device_init ''/dev/video0''))) = 640 \<and>
   sensor_height (con_priv (arv_v4l2_device_constructed pixel_format_map example_env
     (arv_v4l2_device_init ''/dev/video0''))) = 480 \<and>
   pixel_formats (con_priv (arv_v4l2_device_constructed pixel_format_map example_env
     (arv_v4l2_device_init ''/dev/video0''))) =
     [ARV_PIXEL_FORMAT_RGB_8_PACKED, ARV_PIXEL_FORMAT_YUV_422_PACKED] \<and>
   map_of (default_node_data (arv_v4l2_device_constructed pixel_format_map example_env
     (arv_v4l2_device_init ''/dev/video0''))) ''PixelFormat'' =
     Some (''<Enumeration Name='' @ [DQUOTE] @ ''PixelFormat'' @ [DQUOTE] @ ''>'' @ [NEWLINE] @
           ''  <DisplayName>Pixel format</DisplayName>'' @ [NEWLINE] @
           ''  <EnumEntry Name='' @ [DQUOTE] @ ''RGB3'' @ [DQUOTE] @ ''>'' @ [NEWLINE] @
           ''    <Value>35127316</Value>'' @ [NEWLINE] @
           ''  </EnumEntry>'' @ [NEWLINE] @
           ''  <EnumEntry Name='' @ [DQUOTE] @ ''YUYV'' @ [DQUOTE] @ ''>'' @ [NEWLINE] @
           ''    <Value>34603039</Value>'' @ [NEWLINE] @
           ''  </EnumEntry>'' @ [NEWLINE] @
           ''  <pValue>PixelFormatRegister</pValue>'' @ [NEWLINE] @ ''</Enumeration>'') \<and>
   occurrences ''<EnumEntry ''
     (the (map_of (default_node_data (arv_v4l2_device_constructed pixel_format_map example_env
        (arv_v4l2_device_init ''/dev/video0''))) ''PixelFormat'')) = 2"
proof -
  have a: "init_error (arv_v4l2_device_constructed pixel_format_map example_env
     (arv_v4l2_device_init ''/dev/video0'')) = None"
    using reaches_example by (simp add: constructed_reaches)
  have b: "vidioc_enum_fmt example_env =
           [\<lparr>fmt_pixelformat = V4L2_PIX_FMT_RGB24,
             fmt_description = ''RGB3'' @ [NUL, NUL, NUL, NUL]\<rparr>,
            \<lparr>fmt_pixelformat = V4L2_PIX_FMT_YUYV,
             fmt_description = ''YUYV'' @ [NUL, NUL, NUL, NUL]\<rparr>]"
    by (simp add: example_env_def)
  have c: "vidioc_enum_framesizes example_env V4L2_PIX_FMT_RGB24 = [Frmsize_discrete 640 480]"
    by (simp add: example_env_def example_sizes_def)
  have d: "vidioc_enum_framesizes example_env V4L2_PIX_FMT_YUYV = [Frmsize_discrete 320 240]"
    by (simp add: example_env_def example_sizes_def)
  have e: "map_pixel_format pixel_format_map V4L2_PIX_FMT_RGB24 0 = ARV_PIXEL_FORMAT_RGB_8_PACKED"
    by (simp add: pixel_format_map_def)
  have f: "map_pixel_format pixel_format_map V4L2_PIX_FMT_YUYV 0 = ARV_PIXEL_FORMAT_YUV_422_PACKED"
    by (simp add: pixel_format_map_def)
  have g: "ARV_PIXEL_FORMAT_RGB_8_PACKED \<noteq> 0" "ARV_PIXEL_FORMAT_YUV_422_PACKED \<noteq> 0"
    by simp_all
  have n: "show_int 35127316 = ''35127316''" "show_int 34603039 = ''34603039''"
    by (simp_all add: show_int_def show_nat.simps char_of_def bit_Suc_0_iff)
  have s: "c_string (''RGB3'' @ [NUL, NUL, NUL, NUL]) = ''RGB3''"
          "c_string (''YUYV'' @ [NUL, NUL, NUL, NUL]) = ''YUYV''"
    by (simp_all add: c_string_def)
  show ?thesis
    using a e f C7_two_format_scenario [OF a b c d e f g]
    unfolding s
    by (simp add: n)
qed

subsection \<open>A format that the table does not know\<close>

text \<open>
  C8. When the kernel enumerates, at index \<open>n\<close>, a format whose code is not in the
  translation table, construction still succeeds (given that it gets as far as the
  enumeration), the pixel-format table has an entry for every enumerated format and
  holds 0 at index \<open>n\<close>, the text of the \<^verbatim>\<open>PixelFormat\<close> enumeration consists of the
  entries of the supported formats before and behind index \<open>n\<close> only, no frame-size
  request is sent for the code of that format, and the format request with index
  \<open>n + 1\<close> is sent. The table is, entry by entry, the generic codes of the enumerated
  formats. The pass of the loop for that format, from any state \<open>e\<close> of the
  enumeration, appends the 0 to the table as it stands and changes neither the text nor
  the list of requests.
\<close>

theorem C8_unsupported_format_recorded_and_skipped:
  assumes "reaches_enumeration env"
    and "n < length (vidioc_enum_fmt env)"
    and "fmt_pixelformat (vidioc_enum_fmt env ! n) \<notin> fst ` set table"
  shows "init_error (arv_v4l2_device_constructed table env priv0) = None \<and>
         length (pixel_formats (con_priv (arv_v4l2_device_constructed table env priv0))) =
           length (vidioc_enum_fmt env) \<and>
         pixel_formats (con_priv (arv_v4l2_device_constructed table env priv0)) ! n = 0 \<and>
         map_of (default_node_data (arv_v4l2_device_constructed table env priv0)) ''PixelFormat'' =
           Some (format_feature_head @
                 concat (map (format_entry table)
                          (filter (supported_format table) (take n (vidioc_enum_fmt env)))) @
                 concat (map (format_entry table)
                          (filter (supported_format table) (drop (Suc n) (vidioc_enum_fmt env)))) @
                 format_feature_tail) \<and>
         (\<forall>j. VIDIOC_ENUM_FRAMESIZES (fmt_pixelformat (vidioc_enum_fmt env ! n)) j \<notin>
                set (con_ioctls (arv_v4l2_device_constructed table env priv0))) \<and>
         VIDIOC_ENUM_FMT (Suc n) \<in> set (con_ioctls (arv_v4l2_device_constructed table env priv0)) \<and>
         pixel_formats (con_priv (arv_v4l2_device_constructed table env priv0)) =
           map (genicam_code table) (vidioc_enum_fmt env) \<and>
         pixel_formats (en_priv (enum_format_body table sizes (vidioc_enum_fmt env ! n)
                                   (length (pixel_formats (en_priv e))) e)) =
           pixel_formats (en_priv e) @ [0] \<and>
         format_feature (enum_format_body table sizes (vidioc_enum_fmt env ! n) i e) =
           format_feature e \<and>
         ioctls (enum_format_body table sizes (vidioc_enum_fmt env ! n) i e) = ioctls e"
proof -
  let ?fmts = "vidioc_enum_fmt env"
  have ok: "init_error (arv_v4l2_device_constructed table env priv0) = None"
    using assms(1) by (simp add: constructed_reaches)
  obtain priv3 where r: "arv_v4l2_device_constructed table env priv0 = enumerate_and_patch table env priv3"
    using constructed_success [OF ok] by blast
  have zero: "map_pixel_format table (fmt_pixelformat (?fmts ! n)) 0 = 0"
    using assms(3) by (rule map_pixel_format_absent)
  then have unsupported: "\<not> supported_format table (?fmts ! n)"
    by (simp add: supported_format_def genicam_code_def)
  have split: "?fmts = take n ?fmts @ ?fmts ! n # drop (Suc n) ?fmts"
    using assms(2) by (simp add: id_take_nth_drop)
  have "filter (supported_format table) (take n ?fmts @ ?fmts ! n # drop (Suc n) ?fmts) =
          filter (supported_format table) (take n ?fmts) @
          filter (supported_format table) (drop (Suc n) ?fmts)"
    using unsupported by simp
  then have filt: "filter (supported_format table) ?fmts =
          filter (supported_format table) (take n ?fmts) @
          filter (supported_format table) (drop (Suc n) ?fmts)"
    using split by simp
  have len: "length (pixel_formats (con_priv (enumerate_and_patch table env priv3))) = length ?fmts"
    by (simp add: patch_pixel_formats)
  have nth: "pixel_formats (con_priv (enumerate_and_patch table env priv3)) ! n = 0"
    using assms(2) zero by (simp add: patch_pixel_formats genicam_code_def)
  have feat: "map_of (default_node_data (enumerate_and_patch table env priv3)) ''PixelFormat'' =
           Some (format_feature_head @
                 concat (map (format_entry table) (filter (supported_format table) (take n ?fmts))) @
                 concat (map (format_entry table) (filter (supported_format table) (drop (Suc n) ?fmts))) @
                 format_feature_tail)"
    by (simp add: patch_format_feature filt)
  have nosizes: "VIDIOC_ENUM_FRAMESIZES (fmt_pixelformat (?fmts ! n)) j \<notin>
                set (con_ioctls (enumerate_and_patch table env priv3))" for j
  proof
    assume "VIDIOC_ENUM_FRAMESIZES (fmt_pixelformat (?fmts ! n)) j \<in>
              set (con_ioctls (enumerate_and_patch table env priv3))"
    then have "VIDIOC_ENUM_FRAMESIZES (fmt_pixelformat (?fmts ! n)) j \<in>
              set (ioctls (snd (enum_formats table (vidioc_enum_framesizes env) ?fmts 0
                \<lparr>en_priv = priv3\<lparr>sensor_width := 0, sensor_height := 0,
                        pixel_formats := [], frame_sizes := []\<rparr>,
                 format_feature = format_feature_head, ioctls = []\<rparr>)))"
      by (simp only: patch_ioctls)
    from enum_formats_frame_size_requests [OF this] zero show False
      by simp
  qed
  have "Suc n \<le> length ?fmts"
    using assms(2) by simp
  then have nxt: "VIDIOC_ENUM_FMT (Suc n) \<in> set (con_ioctls (enumerate_and_patch table env priv3))"
    using enum_formats_asks_every_index [of "Suc n" ?fmts 0 table]
    by (simp add: patch_ioctls)
  have whole: "pixel_formats (con_priv (enumerate_and_patch table env priv3)) =
                 map (genicam_code table) ?fmts"
    by (rule patch_pixel_formats)
  have pass: "pixel_formats (en_priv (enum_format_body table sizes (?fmts ! n)
                                        (length (pixel_formats (en_priv e))) e)) =
                pixel_formats (en_priv e) @ [0]"
    using zero by (simp add: enum_format_body_def Let_def g_array_insert_val_def)
  have same: "format_feature (enum_format_body table sizes (?fmts ! n) i e) = format_feature e"
             "ioctls (enum_format_body table sizes (?fmts ! n) i e) = ioctls e"
    using zero by (simp_all add: enum_format_body_def Let_def)
  show ?thesis
    using ok len nth feat nosizes nxt whole pass same by (simp add: r)
qed

theorem C8_unsupported_format_recorded_and_skipped_witness:
  "reaches_enumeration example_env_mjpeg \<and>
   fmt_pixelformat (vidioc_enum_fmt example_env_mjpeg ! 1) = V4L2_PIX_FMT_MJPEG \<and>
   V4L2_PIX_FMT_MJPEG \<notin> fst ` set pixel_format_map \<and>
   init_error (arv_v4l2_device_constructed pixel_format_map example_env_mjpeg
     (arv_v4l2_device_init ''/dev/video0'')) = None \<and>
   pixel_formats (con_priv (arv_v4l2_device_constructed pixel_format_map example_env_mjpeg
     (arv_v4l2_device_init ''/dev/video0''))) ! 1 = 0 \<and>
   length (pixel_formats (con_priv (arv_v4l2_device_constructed pixel_format_map example_env_mjpeg
     (arv_v4l2_device_init ''/dev/video0'')))) = 3 \<and>
   map_of (default_node_data (arv_v4l2_device_constructed pixel_format_map example_env_mjpeg
     (arv_v4l2_device_init ''/dev/video0''))) ''PixelFormat'' =
     Some (format_feature_head @ enum_entry ''RGB3'' ARV_PIXEL_FORMAT_RGB_8_PACKED @
           enum_entry ''YUYV'' ARV_PIXEL_FORMAT_YUV_422_PACKED @ format_feature_tail) \<and>
   VIDIOC_ENUM_FRAMESIZES V4L2_PIX_FMT_MJPEG 0 \<notin>
     set (con_ioctls (arv_v4l2_device_constructed pixel_format_map example_env_mjpeg
       (arv_v4l2_device_init ''/dev/video0''))) \<and>
   VIDIOC_ENUM_FMT 2 \<in>
     set (con_ioctls (arv_v4l2_device_constructed pixel_format_map example_env_mjpeg
       (arv_v4l2_device_init ''/dev/video0''))) \<and>
   pixel_formats (con_priv (arv_v4l2_device_constructed pixel_format_map example_env_mjpeg
     (arv_v4l2_device_init ''/dev/video0''))) =
     [ARV_PIXEL_FORMAT_RGB_8_PACKED, 0, ARV_PIXEL_FORMAT_YUV_422_PACKED] \<and>
   map_of (default_node_data (arv_v4l2_device_constructed pixel_format_map example_env_mjpeg
     (arv_v4l2_device_init ''/dev/video0''))) ''PixelFormat'' =
     Some example_pixel_format_feature \<and>
   pixel_formats (en_priv (enum_format_body pixel_format_map example_sizes
       \<lparr>fmt_pixelformat = V4L2_PIX_FMT_MJPEG, fmt_description = ''Motion-JPEG''\<rparr> 1
       example_enumeration)) =
     [ARV_PIXEL_FORMAT_RGB_8_PACKED, 0] \<and>
   ioctls (enum_format_body pixel_format_map example_sizes
       \<lparr>fmt_pixelformat = V4L2_PIX_FMT_MJPEG, fmt_description = ''Motion-JPEG''\<rparr> 1
       example_enumeration) =
     ioctls example_enumeration"
proof -
  have b: "1 < length (vidioc_enum_fmt example_env_mjpeg)"
    by (simp add: example_env_mjpeg_def)
  have c: "fmt_pixelformat (vidioc_enum_fmt example_env_mjpeg ! 1) = V4L2_PIX_FMT_MJPEG"
    by (simp add: example_env_mjpeg_def)
  have d: "V4L2_PIX_FMT_MJPEG \<notin> fst ` set pixel_format_map"
    by (simp add: pixel_format_map_def)
  have d': "fmt_pixelformat (vidioc_enum_fmt example_env_mjpeg ! 1) \<notin> fst ` set pixel_format_map"
    using c d by simp
  have fm: "vidioc_enum_fmt example_env_mjpeg =
       [\<lparr>fmt_pixelformat = V4L2_PIX_FMT_RGB24, fmt_description = ''RGB3''\<rparr>,
        \<lparr>fmt_pixelformat = V4L2_PIX_FMT_MJPEG, fmt_description = ''Motion-JPEG''\<rparr>,
        \<lparr>fmt_pixelformat = V4L2_PIX_FMT_YUYV, fmt_description = ''YUYV''\<rparr>]"
    by (simp add: example_env_mjpeg_def)
  have nth1: "vidioc_enum_fmt example_env_mjpeg ! Suc 0 =
       \<lparr>fmt_pixelformat = V4L2_PIX_FMT_MJPEG, fmt_description = ''Motion-JPEG''\<rparr>"
    by (simp add: fm)
  have l: "length (vidioc_enum_fmt example_env_mjpeg) = 3"
    by (simp add: fm)
  have t: "filter (supported_format pixel_format_map) (take (Suc 0) (vidioc_enum_fmt example_env_mjpeg)) =
             [\<lparr>fmt_pixelformat = V4L2_PIX_FMT_RGB24, fmt_description = ''RGB3''\<rparr>]"
    by (simp add: fm supported_format_def genicam_code_def pixel_format_map_def)
  have dr: "filter (supported_format pixel_format_map)
              (drop 2 (vidioc_enum_fmt example_env_mjpeg)) =
             [\<lparr>fmt_pixelformat = V4L2_PIX_FMT_YUYV, fmt_description = ''YUYV''\<rparr>]"
    by (simp add: fm supported_format_def genicam_code_def pixel_format_map_def)
  have s: "c_string ''RGB3'' = ''RGB3''" "c_string ''YUYV'' = ''YUYV''"
    by (simp_all add: c_string_def)
  have fe: "format_entry pixel_format_map
              \<lparr>fmt_pixelformat = V4L2_PIX_FMT_RGB24, fmt_description = ''RGB3''\<rparr> =
            enum_entry ''RGB3'' ARV_PIXEL_FORMAT_RGB_8_PACKED"
           "format_entry pixel_format_map
              \<lparr>fmt_pixelformat = V4L2_PIX_FMT_YUYV, fmt_description = ''YUYV''\<rparr> =
            enum_entry ''YUYV'' ARV_PIXEL_FORMAT_YUV_422_PACKED"
    by (simp_all add: format_entry_def genicam_code_def pixel_format_map_def s)
  have n: "show_int 35127316 = ''35127316''" "show_int 34603039 = ''34603039''"
    by (simp_all add: show_int_def show_nat.simps char_of_def bit_Suc_0_iff)
  have written: "format_feature_head @ enum_entry ''RGB3'' ARV_PIXEL_FORMAT_RGB_8_PACKED @
           enum_entry ''YUYV'' ARV_PIXEL_FORMAT_YUV_422_PACKED @ format_feature_tail =
           example_pixel_format_feature"
    by (simp add: format_feature_head_def enum_entry_def format_feature_tail_def
          example_pixel_format_feature_def n)
  have codes: "map (genicam_code pixel_format_map) (vidioc_enum_fmt example_env_mjpeg) =
           [ARV_PIXEL_FORMAT_RGB_8_PACKED, 0, ARV_PIXEL_FORMAT_YUV_422_PACKED]"
    by (simp add: fm genicam_code_def pixel_format_map_def)
  have before: "pixel_formats (en_priv example_enumeration) = [ARV_PIXEL_FORMAT_RGB_8_PACKED]"
               "length (pixel_formats (en_priv example_enumeration)) = 1"
    by (simp_all add: example_enumeration_def)
  have two: "Suc 1 = 2"
    by simp
  show ?thesis
    using reaches_example_mjpeg c d
      C8_unsupported_format_recorded_and_skipped [OF reaches_example_mjpeg b d',
        where ?priv0.0 = "arv_v4l2_device_init ''/dev/video0''" and sizes = example_sizes
          and e = example_enumeration and i = 1]
    unfolding two before
    by (simp add: l t dr fe codes nth1 written [symmetric])
qed

section \<open>Properties of the capture thread\<close>

subsection \<open>Auxiliary facts\<close>

lemma dequeue_phase_keeps_table: "buffers (dequeue_phase answer now bufd s) = buffers s"
  by (simp add: dequeue_phase_def invoke_callback_def Let_def split: option.splits)

lemma dequeue_phase_timestamps:
  assumes "map_of (buffers s) (buf_index b) = Some a"
  shows "timestamp_ns (objects (dequeue_phase (Some b) now bufd s) a) =
           1000000000000 * buf_tv_sec b + 1000 * buf_tv_usec b \<and>
         system_timestamp_ns (objects (dequeue_phase (Some b) now bufd s) a) = now * 1000"
  using assms by (simp add: dequeue_phase_def invoke_callback_def stamp_buffer_def)

subsection \<open>The table of queued buffers\<close>

text \<open>
  C3. An entry of the table of queued buffers should go when its slot is dequeued, so
  that the loop at shutdown pushes exactly the buffers that were queued and never
  dequeued. Here one buffer (address 1, slot 0) is queued and dequeued in the only pass
  of the loop: in the model of the code the table still holds it behind that pass, and
  the thread pushes it to the output twice, once for the frame and once at
  shutdown.
\<close>

theorem C3_dequeued_buffer_drained_again:
  "buffers (loop_body example_pass example_thread_data) = [(0, 1)] \<and>
   output_queue (loop_body example_pass example_thread_data) = [1] \<and>
   output_queue (arv_v4l2_stream_thread [example_pass] example_thread_data) = [1, 1]"
  by (simp add: arv_v4l2_stream_thread_def shutdown_drain_def loop_body_def dequeue_phase_def
        invoke_callback_def example_pass_def example_thread_data_def example_frame_def
        v4l2_buffer_zero_def example_buffer_def)

subsection \<open>The timestamps of a delivered buffer\<close>

text \<open>
  C4. The hardware timestamp of a delivered buffer should be
  \<open>sec * 1000000000 + usec * 1000\<close>. For a frame that the kernel stamps with 1 second
  and 0 microseconds that is 1000000000; the model of the code stores 1000000000000. The
  wall-clock timestamp is the real time in microseconds times 1000.
\<close>

theorem C4_timestamp_uses_wrong_factor:
  "timestamp_ns (objects (loop_body example_pass example_thread_data) 1) = 1000000000000 \<and>
   buf_tv_sec example_frame * 1000000000 + buf_tv_usec example_frame * 1000 = 1000000000 \<and>
   system_timestamp_ns (objects (loop_body example_pass example_thread_data) 1) = 5000"
  by (simp add: loop_body_def dequeue_phase_def stamp_buffer_def
        invoke_callback_def example_pass_def example_thread_data_def example_frame_def
        v4l2_buffer_zero_def example_buffer_def)

subsection \<open>A failed dequeue\<close>

text \<open>
  C9. When \<^verbatim>\<open>VIDIOC_DQBUF\<close> fails, the slot index that is looked up is the 0 written
  before the call, whatever \<^verbatim>\<open>bufd\<close> held: if the table has a buffer for slot 0, that
  buffer gets the success status, is pushed to the output and counted as completed, the
  frame counter advances and the callback is told of a finished buffer.
\<close>

theorem C9_failed_dequeue_delivers_slot_zero:
  assumes "map_of (buffers s) 0 = Some arv_buffer"
  shows "output_queue (dequeue_phase None now bufd s) = output_queue s @ [arv_buffer] \<and>
         status (objects (dequeue_phase None now bufd s) arv_buffer) = ARV_BUFFER_STATUS_SUCCESS \<and>
         n_completed_buffers (dequeue_phase None now bufd s) = n_completed_buffers s + 1 \<and>
         frame_id (dequeue_phase None now bufd s) = frame_id s + 1 \<and>
         callbacks (dequeue_phase None now bufd s) =
           (if callback s then callbacks s @ [ARV_STREAM_CALLBACK_TYPE_BUFFER_DONE arv_buffer]
            else callbacks s)"
  using assms by (simp add: dequeue_phase_def invoke_callback_def stamp_buffer_def)

theorem C9_failed_dequeue_delivers_slot_zero_witness:
  "map_of (buffers (loop_body example_pass example_thread_data)) 0 = Some 1 \<and>
   output_queue (dequeue_phase None 7 example_stale_bufd
                   (loop_body example_pass example_thread_data)) = [1, 1] \<and>
   status (objects (dequeue_phase None 7 example_stale_bufd
                      (loop_body example_pass example_thread_data)) 1) =
     ARV_BUFFER_STATUS_SUCCESS \<and>
   n_completed_buffers (dequeue_phase None 7 example_stale_bufd
                          (loop_body example_pass example_thread_data)) = 2"
proof -
  have a: "map_of (buffers (loop_body example_pass example_thread_data)) 0 = Some 1"
    by (simp add: loop_body_def dequeue_phase_def
        invoke_callback_def example_pass_def example_thread_data_def example_frame_def
        v4l2_buffer_zero_def example_buffer_def)
  have b: "output_queue (loop_body example_pass example_thread_data) = [1]"
    by (simp add: loop_body_def dequeue_phase_def
        invoke_callback_def example_pass_def example_thread_data_def example_frame_def
        v4l2_buffer_zero_def example_buffer_def)
  have c: "n_completed_buffers (loop_body example_pass example_thread_data) = 1"
    by (simp add: loop_body_def dequeue_phase_def
        invoke_callback_def example_pass_def example_thread_data_def example_frame_def
        v4l2_buffer_zero_def example_buffer_def)
  show ?thesis
    using a b c C9_failed_dequeue_delivers_slot_zero [OF a, of 7 example_stale_bufd] by simp
qed

end
